theory Spec2Isabelle
  imports Main "HOL-Library.Sublist" "HOL-Library.Word" "HOL-Library.AList"
begin

section \<open>JavaScript values used by the pages\<close>

text \<open>
  Strings are \<^typ>\<open>string\<close>: lists of 8-bit characters, read as the UTF-8 bytes of the
  JavaScript string. Every character the scripts test for (\<open>.\<close>, \<open>/\<close>, \<open>@\<close>, \<open>,\<close>,
  \<open>:\<close>, \<open>;\<close>) is ASCII, so these tests read the same on bytes as on UTF-16 code units.
  The few literals of the source outside ASCII are written as their UTF-8 bytes.
\<close>

text \<open>
  A value a script can hold after \<open>JSON.parse\<close> and property access. Numbers are
  restricted to the integers of magnitude below 10^21, which JavaScript prints in full,
  digit by digit (from 10^21 on it prints an exponent). An object is the list of its own properties as the parser
  left them (a key occurs once).
\<close>

datatype js_value =
    JUndefined
  | JNull
  | JBool bool
  | JNum int
  | JStr string
  | JArr "js_value list"
  | JObj "(string \<times> js_value) list"

text \<open>An exception object; \<open>message\<close> is its \<open>error.message\<close>.\<close>

datatype js_error =
    TypeError string
  | SyntaxError string
  | Error string
  | InvalidCharacterError string

fun message :: "js_error \<Rightarrow> string" where
  "message (TypeError m) = m"
| "message (SyntaxError m) = m"
| "message (Error m) = m"
| "message (InvalidCharacterError m) = m"

text \<open>ToBoolean: what \<open>!x\<close>, \<open>x || y\<close> and \<open>if (x)\<close> test.\<close>

fun truthy :: "js_value \<Rightarrow> bool" where
  "truthy JUndefined = False"
| "truthy JNull = False"
| "truthy (JBool b) = b"
| "truthy (JNum n) = (n \<noteq> 0)"
| "truthy (JStr s) = (s \<noteq> [])"
| "truthy (JArr xs) = True"
| "truthy (JObj kvs) = True"

text \<open>\<open>a || b\<close> on values.\<close>

definition js_or :: "js_value \<Rightarrow> js_value \<Rightarrow> js_value" where
  "js_or a b = (if truthy a then a else b)"

text \<open>Decimal digits of a number, as \<open>String(n)\<close> and template literals print it.\<close>

definition digit_char :: "nat \<Rightarrow> char" where
  "digit_char d = char_of (48 + d)"

function dec_nat :: "nat \<Rightarrow> string" where
  "dec_nat n = (if n < 10 then [digit_char n] else dec_nat (n div 10) @ [digit_char (n mod 10)])"
  by pat_completeness auto
termination
  by (relation "measure id") auto

declare dec_nat.simps [simp del]

definition dec_int :: "int \<Rightarrow> string" where
  "dec_int i = (if i < 0 then CHR ''-'' # dec_nat (nat (- i)) else dec_nat (nat i))"

text \<open>\<open>Array.prototype.join(",")\<close> on strings already converted.\<close>

fun join_comma :: "string list \<Rightarrow> string" where
  "join_comma [] = []"
| "join_comma [s] = s"
| "join_comma (s # t # ss) = s @ CHR '','' # join_comma (t # ss)"

text \<open>
  ToString. An array prints its elements joined by commas, \<open>null\<close> and \<open>undefined\<close>
  elements as the empty string; an object prints as \<open>[object Object]\<close> (an object that
  carries an own \<open>toString\<close> or \<open>valueOf\<close> key is outside the model).
\<close>

fun to_string :: "js_value \<Rightarrow> string" where
  "to_string JUndefined = ''undefined''"
| "to_string JNull = ''null''"
| "to_string (JBool b) = (if b then ''true'' else ''false'')"
| "to_string (JNum n) = dec_int n"
| "to_string (JStr s) = s"
| "to_string (JArr xs) =
     join_comma (map (\<lambda>x. if x = JUndefined \<or> x = JNull then [] else to_string x) xs)"
| "to_string (JObj kvs) = ''[object Object]''"

text \<open>
  Property read \<open>v.k\<close> for the keys the scripts read (\<open>detail\<close>, \<open>user\<close>, \<open>username\<close>,
  \<open>name\<close>, \<open>email\<close>, \<open>gender\<close>, \<open>avatar_url\<close>). \<open>prop_of\<close> is the read from a value
  that is neither \<open>null\<close> nor \<open>undefined\<close>: an object gives its own property or
  \<open>undefined\<close>, every other value gives \<open>undefined\<close>. \<open>get_prop\<close> is the read from any
  value: from \<open>null\<close> or \<open>undefined\<close> it throws a TypeError, whose text is the engine's
  (the parameter \<open>m\<close>).
\<close>

fun prop_of :: "js_value \<Rightarrow> string \<Rightarrow> js_value" where
  "prop_of (JObj kvs) k = (case map_of kvs k of None \<Rightarrow> JUndefined | Some v \<Rightarrow> v)"
| "prop_of v k = JUndefined"

definition get_prop :: "string \<Rightarrow> js_value \<Rightarrow> string \<Rightarrow> js_error + js_value" where
  "get_prop m v k = (if v = JUndefined \<or> v = JNull then Inl (TypeError m) else Inr (prop_of v k))"

subsection \<open>String helpers\<close>

text \<open>\<open>s.endsWith(t)\<close>.\<close>

definition endsWith :: "string \<Rightarrow> string \<Rightarrow> bool" where
  "endsWith s t = suffix t s"

text \<open>
  The white space and line terminators \<open>String.prototype.trim\<close> removes, each as its
  UTF-8 bytes: U+0009 to U+000D, U+0020, U+00A0, U+1680, U+2000 to U+200A, U+2028,
  U+2029, U+202F, U+205F, U+3000, U+FEFF.
\<close>

definition white_space :: "string list" where
  "white_space =
     [[CHR 0x09], [CHR 0x0A], [CHR 0x0B], [CHR 0x0C], [CHR 0x0D], [CHR 0x20],
      [CHR 0xC2, CHR 0xA0],
      [CHR 0xE1, CHR 0x9A, CHR 0x80],
      [CHR 0xE2, CHR 0x80, CHR 0x80], [CHR 0xE2, CHR 0x80, CHR 0x81],
      [CHR 0xE2, CHR 0x80, CHR 0x82], [CHR 0xE2, CHR 0x80, CHR 0x83],
      [CHR 0xE2, CHR 0x80, CHR 0x84], [CHR 0xE2, CHR 0x80, CHR 0x85],
      [CHR 0xE2, CHR 0x80, CHR 0x86], [CHR 0xE2, CHR 0x80, CHR 0x87],
      [CHR 0xE2, CHR 0x80, CHR 0x88], [CHR 0xE2, CHR 0x80, CHR 0x89],
      [CHR 0xE2, CHR 0x80, CHR 0x8A],
      [CHR 0xE2, CHR 0x80, CHR 0xA8], [CHR 0xE2, CHR 0x80, CHR 0xA9],
      [CHR 0xE2, CHR 0x80, CHR 0xAF],
      [CHR 0xE2, CHR 0x81, CHR 0x9F],
      [CHR 0xE3, CHR 0x80, CHR 0x80],
      [CHR 0xEF, CHR 0xBB, CHR 0xBF]]"

text \<open>Removes from the front of \<open>s\<close> every leading occurrence of a string of \<open>ws\<close>.\<close>

function strip_leading :: "string list \<Rightarrow> string \<Rightarrow> string" where
  "strip_leading ws s =
     (case find (\<lambda>w. w \<noteq> [] \<and> prefix w s) ws of
        None \<Rightarrow> s
      | Some w \<Rightarrow> strip_leading ws (drop (length w) s))"
  by pat_completeness auto
termination
proof (relation "measure (\<lambda>(ws, s). length s)")
  show "wf (measure (\<lambda>(ws, s). length s))" by simp
next
  fix ws :: "string list" and s w :: string
  assume "find (\<lambda>w. w \<noteq> [] \<and> prefix w s) ws = Some w"
  then have "w \<noteq> [] \<and> prefix w s"
    by (auto simp: find_Some_iff)
  then have "length w > 0" and "length w \<le> length s"
    by (auto simp: prefix_def)
  then show "((ws, drop (length w) s), (ws, s)) \<in> measure (\<lambda>(ws, s). length s)"
    by (cases w) auto
qed

declare strip_leading.simps [simp del]

text \<open>\<open>s.split(c)\<close> for a one-character separator: the pieces between the separators.\<close>

fun split_on :: "char \<Rightarrow> string \<Rightarrow> string list" where
  "split_on c [] = [[]]"
| "split_on c (x # xs) =
     (if x = c then [] # split_on c xs
      else (case split_on c xs of
              [] \<Rightarrow> [[x]]
            | piece # pieces \<Rightarrow> (x # piece) # pieces))"

text \<open>\<open>s.trim()\<close>.\<close>

definition trim :: "string \<Rightarrow> string" where
  "trim s = rev (strip_leading (map rev white_space) (rev (strip_leading white_space s)))"

section \<open>Environment Resolver\<close>

text \<open>
  Each script computes \<open>IS_LOCAL\<close> and \<open>API_BASE\<close> once, from \<open>location.hostname\<close>.
  \<open>app.js\<close> and \<open>editor.js\<close> fall back to \<open>window.location.origin\<close>; \<open>profile.js\<close>
  and the login/signup script fall back to a hardcoded deployed host each.
\<close>

definition IS_LOCAL :: "string \<Rightarrow> bool" where
  "IS_LOCAL hostname = (hostname = ''localhost'' \<or> hostname = ''127.0.0.1'')"

definition API_BASE_app :: "string \<Rightarrow> string \<Rightarrow> string" where
  "API_BASE_app hostname origin =
     (if IS_LOCAL hostname then ''http://127.0.0.1:8000'' else origin)"

definition API_BASE_editor :: "string \<Rightarrow> string \<Rightarrow> string" where
  "API_BASE_editor hostname origin =
     (if IS_LOCAL hostname then ''http://127.0.0.1:8000'' else origin)"

definition API_BASE_profile :: "string \<Rightarrow> string" where
  "API_BASE_profile hostname =
     (if IS_LOCAL hostname then ''http://127.0.0.1:8000''
      else ''https://image-resizer-rxnr.onrender.com'')"

definition API_BASE_auth :: "string \<Rightarrow> string" where
  "API_BASE_auth hostname =
     (if IS_LOCAL hostname then ''http://127.0.0.1:8000''
      else ''https://image-resizer-deao.onrender.com'')"

section \<open>Requests and responses\<close>

text \<open>A \<open>File\<close>: its name, its MIME type and its bytes.\<close>

record file_obj =
  file_name :: string
  file_type :: string
  file_bytes :: "8 word list"

text \<open>
  A \<open>FormData\<close> is the list of its entries in the order they were appended; a file entry
  carries the file and the filename it is sent under.
\<close>

datatype form_value = FileValue file_obj string | TextValue string

type_synonym form_data = "(string \<times> form_value) list"

datatype request_body = NoBody | FormBody form_data

record request =
  req_method :: string
  req_url :: string
  req_credentials :: "string option"
  req_body :: request_body

text \<open>
  A response as \<open>fetch\<close> resolves it. \<open>body\<close> is \<open>None\<close> for a null body; otherwise it
  holds the body's text and what \<open>JSON.parse\<close> makes of that text (\<open>None\<close> when the text
  is not JSON).
\<close>

record response_body =
  body_text :: string
  body_json :: "js_value option"

record response =
  status :: nat
  body :: "response_body option"

text \<open>\<open>response.ok\<close>: the status is 200 to 299.\<close>

definition ok :: "response \<Rightarrow> bool" where
  "ok r = (200 \<le> status r \<and> status r \<le> 299)"

text \<open>
  What \<open>await fetch(...)\<close> gives: a rejection (network failure) or a response. Every
  handler below awaits one request; it is modelled as one step from the state it finds to
  the state it leaves, given the outcome of that request. Events that arrive while the
  request is pending are not modelled.
\<close>

datatype fetch_outcome = Rejected string | Responded response

text \<open>The texts of the exceptions the browser itself raises.\<close>

record engine =
  body_used_message :: string
  json_syntax_message :: string
  null_property_message :: string
  not_a_blob_message :: string
  undefined_entry_message :: string
  not_a_function_message :: string

text \<open>
  Reading a body (\<open>response.json()\<close>, \<open>response.text()\<close>, \<open>response.blob()\<close>), as the
  Fetch standard's "consume body" has it: a body that was read before is unusable and the
  read rejects with a TypeError; otherwise the whole body is read (and is used from then
  on, whether or not the parse that follows succeeds); a null body reads as no bytes.
  The flag \<open>used\<close> is \<open>response.bodyUsed\<close>; each function returns the new flag.
\<close>

definition response_json :: "engine \<Rightarrow> response \<Rightarrow> bool \<Rightarrow> (js_error + js_value) \<times> bool" where
  "response_json eng r used =
     (case body r of
        None \<Rightarrow> (Inl (SyntaxError (json_syntax_message eng)), used)
      | Some b \<Rightarrow>
          if used then (Inl (TypeError (body_used_message eng)), used)
          else (case body_json b of
                  None \<Rightarrow> (Inl (SyntaxError (json_syntax_message eng)), True)
                | Some v \<Rightarrow> (Inr v, True)))"

definition response_text :: "engine \<Rightarrow> response \<Rightarrow> bool \<Rightarrow> (js_error + string) \<times> bool" where
  "response_text eng r used =
     (case body r of
        None \<Rightarrow> (Inr [], used)
      | Some b \<Rightarrow>
          if used then (Inl (TypeError (body_used_message eng)), used)
          else (Inr (body_text b), True))"

definition response_blob :: "engine \<Rightarrow> response \<Rightarrow> bool \<Rightarrow> (js_error + string) \<times> bool" where
  "response_blob eng r used =
     (case body r of
        None \<Rightarrow> (Inr [], used)
      | Some b \<Rightarrow>
          if used then (Inl (TypeError (body_used_message eng)), used)
          else (Inr (body_text b), True))"

section \<open>Upload/Process Workflow Controller (app.js)\<close>

subsection \<open>State\<close>

text \<open>
  A Pending File Entry is the object \<open>{ file, mainFolder }\<close>. The input handler writes
  \<open>entry[field]\<close> for a field name it reads from the DOM, so the \<open>file\<close> property can
  come to hold a string, and other properties can be added.
\<close>

datatype file_slot = IsFile file_obj | NotFile string

record pending_entry =
  entry_file :: file_slot
  mainFolder :: string
  other_props :: "(string \<times> string) list"

text \<open>
  The children of \<open>fileList\<close>: the empty-state \<open>div\<close> with its text, or a file card with
  the \<open>innerHTML\<close> of its title and of its field.
\<close>

datatype list_child = Empty_state string | File_card string string

text \<open>A card of \<open>downloadArea\<close>; \<open>link_href\<close> is the object URL, named by its number.\<close>

record download_card =
  label_text :: string
  link_href :: nat
  link_download :: string
  link_text :: string

text \<open>
  The page state the workflow reads and writes. \<open>object_urls\<close> lists the blobs that
  \<open>URL.createObjectURL\<close> registered (the script revokes none); \<open>sent\<close> is the log of the
  requests the page issued.
\<close>

record app_page =
  filesState :: "pending_entry list"
  fileList :: "list_child list"
  processBtn_disabled :: bool
  progressFill_width :: string
  statusText :: string
  downloadArea :: "download_card list"
  object_urls :: "string list"
  sent :: "request list"

subsection \<open>Small helpers\<close>

definition updateStatus :: "string \<Rightarrow> app_page \<Rightarrow> app_page" where
  "updateStatus msg p = p\<lparr>statusText := msg\<rparr>"

text \<open>\<open>setProgress\<close> is only ever called with 0 and 1; the value is an integer here.\<close>

definition setProgress :: "int \<Rightarrow> app_page \<Rightarrow> app_page" where
  "setProgress v p =
     (let clamped = max 0 (min 1 v)
      in p\<lparr>progressFill_width := dec_int (clamped * 100) @ ''%''\<rparr>)"

text \<open>
  \<open>name.replace(/\.[^/.]+$/, "")\<close>: the leftmost place where a dot is followed, up to the
  end of the string, by one or more characters that are neither \<open>/\<close> nor \<open>.\<close>; the text
  from that dot on is removed.
\<close>

fun replace_extension :: "string \<Rightarrow> string" where
  "replace_extension [] = []"
| "replace_extension (c # cs) =
     (if c = CHR ''.'' \<and> cs \<noteq> [] \<and> list_all (\<lambda>d. d \<noteq> CHR ''/'' \<and> d \<noteq> CHR ''.'') cs
      then []
      else c # replace_extension cs)"

definition formatFileName :: "string \<Rightarrow> string" where
  "formatFileName name = (let base = replace_extension name in if base = [] then ''image'' else base)"

text \<open>\<open>filesState.every((entry) => entry.mainFolder)\<close>.\<close>

definition every_mainFolder :: "pending_entry list \<Rightarrow> bool" where
  "every_mainFolder es = list_all (\<lambda>entry. mainFolder entry \<noteq> []) es"

subsection \<open>renderFiles\<close>

definition empty_state_text :: string where
  "empty_state_text =
     ''No artwork yet. Drop files here or tap '' @ [CHR 0xE2, CHR 0x80, CHR 0x9C]
       @ ''Select artwork.'' @ [CHR 0xE2, CHR 0x80, CHR 0x9D]"

text \<open>\<open>entry.file.name\<close> and \<open>entry.file.type || "image"\<close> inside the template literal.\<close>

definition slot_name :: "file_slot \<Rightarrow> string" where
  "slot_name f = (case f of IsFile x \<Rightarrow> file_name x | NotFile s \<Rightarrow> ''undefined'')"

definition slot_type :: "file_slot \<Rightarrow> string" where
  "slot_type f =
     (case f of IsFile x \<Rightarrow> (if file_type x = [] then ''image'' else file_type x)
      | NotFile s \<Rightarrow> ''image'')"

definition render_card :: "nat \<times> pending_entry \<Rightarrow> list_child" where
  \<open>render_card ie =
     (case ie of (index, entry) \<Rightarrow>
        File_card
          (''<span>'' @ slot_name (entry_file entry) @ ''</span><span class="badge">''
             @ slot_type (entry_file entry) @ ''</span>'')
          (''\<newline>      <label>Main output folder name</label>\<newline>      <input type="text" value="''
             @ mainFolder entry @ ''" data-index="'' @ dec_nat index
             @ ''" data-field="mainFolder" />\<newline>    ''))\<close>

definition renderFiles :: "app_page \<Rightarrow> app_page" where
  "renderFiles p =
     (if filesState p = []
      then p\<lparr>fileList := [Empty_state empty_state_text], processBtn_disabled := True\<rparr>
      else p\<lparr>fileList := map render_card (enumerate 0 (filesState p)),
              processBtn_disabled := \<not> every_mainFolder (filesState p)\<rparr>)"

subsection \<open>updateStateFromInputs\<close>

text \<open>\<open>Number(target.dataset.index)\<close>: not a number, an integer, or any other number.\<close>

datatype js_number = NaN | Integer int | OtherNumber

text \<open>
  The event's target: its tag name, the number its \<open>data-index\<close> converts to, its
  \<open>data-field\<close> (\<open>None\<close> when the attribute is absent) and its value.
\<close>

record input_target =
  tagName :: string
  index_number :: js_number
  dataset_field :: "string option"
  target_value :: string

text \<open>
  \<open>entry[field] = v\<close> for a string \<open>v\<close>. Assigning a string to \<open>__proto__\<close> changes
  nothing: the setter ignores a value that is neither an object nor \<open>null\<close>.
\<close>

definition set_prop :: "pending_entry \<Rightarrow> string \<Rightarrow> string \<Rightarrow> pending_entry" where
  "set_prop e field v =
     (if field = ''mainFolder'' then e\<lparr>mainFolder := v\<rparr>
      else if field = ''file'' then e\<lparr>entry_file := NotFile v\<rparr>
      else if field = ''__proto__'' then e
      else e\<lparr>other_props := AList.update field v (other_props e)\<rparr>)"

text \<open>
  \<open>filesState[index]\<close> is \<open>undefined\<close> unless \<open>index\<close> is an integer within the array;
  writing a property of \<open>undefined\<close> throws, and the handler ends there with the state as
  it was.
\<close>

definition updateStateFromInputs :: "engine \<Rightarrow> input_target \<Rightarrow> app_page \<Rightarrow> js_error + app_page" where
  "updateStateFromInputs eng target p =
     (if tagName target \<noteq> ''INPUT'' then Inr p
      else
        (case dataset_field target of
           None \<Rightarrow> Inr p
         | Some field \<Rightarrow>
             if index_number target \<noteq> NaN \<and> field \<noteq> [] then
               (case index_number target of
                  Integer i \<Rightarrow>
                    if 0 \<le> i \<and> nat i < length (filesState p) then
                      (let fs = (filesState p)
                                  [nat i := set_prop (filesState p ! nat i) field (trim (target_value target))]
                       in Inr (p\<lparr>filesState := fs, processBtn_disabled := \<not> every_mainFolder fs\<rparr>))
                    else Inl (TypeError (undefined_entry_message eng))
                | _ \<Rightarrow> Inl (TypeError (undefined_entry_message eng)))
             else Inr p))"

subsection \<open>File selection\<close>

text \<open>\<open>files\<close> is \<open>event.target.files\<close>, \<open>None\<close> when it is null.\<close>

definition new_entry :: "file_obj \<Rightarrow> pending_entry" where
  "new_entry f = (let base = formatFileName (file_name f)
                  in \<lparr>entry_file = IsFile f, mainFolder = base, other_props = []\<rparr>)"

definition fileInput_change :: "file_obj list option \<Rightarrow> app_page \<Rightarrow> app_page" where
  "fileInput_change files p =
     (let fs = (case files of None \<Rightarrow> [] | Some l \<Rightarrow> l);
          p1 = p\<lparr>filesState := map new_entry fs\<rparr>;
          p2 = p1\<lparr>downloadArea := []\<rparr>;
          p3 = setProgress 0 p2;
          p4 = updateStatus ''Files loaded. Add folder names and hit process.'' p3
      in renderFiles p4)"

subsection \<open>Processing a batch\<close>

definition createDownloadCard :: "string \<Rightarrow> string \<Rightarrow> app_page \<Rightarrow> app_page" where
  "createDownloadCard name blob p =
     (let url = length (object_urls p);
          card = \<lparr>label_text = name, link_href = url, link_download = name,
                  link_text = ''Download zip''\<rparr>
      in p\<lparr>object_urls := object_urls p @ [blob], downloadArea := downloadArea p @ [card]\<rparr>)"

text \<open>
  \<open>JSON.stringify\<close> of an array of strings: each string quoted, with \<open>"\<close> and \<open>\\<close>
  escaped by a backslash, the control characters below U+0020 written \<open>\b\<close>, \<open>\t\<close>,
  \<open>\n\<close>, \<open>\f\<close>, \<open>\r\<close> or \<open>\u00XX\<close>, everything else as it is.
\<close>

definition hex_digit :: "nat \<Rightarrow> char" where
  "hex_digit d = (if d < 10 then char_of (48 + d) else char_of (87 + d))"

definition json_escape :: "char \<Rightarrow> string" where
  "json_escape c =
     (if c = CHR 0x22 then [CHR 0x5C, CHR 0x22]
      else if c = CHR 0x5C then [CHR 0x5C, CHR 0x5C]
      else if c = CHR 0x08 then [CHR 0x5C, CHR ''b'']
      else if c = CHR 0x0C then [CHR 0x5C, CHR ''f'']
      else if c = CHR 0x0A then [CHR 0x5C, CHR ''n'']
      else if c = CHR 0x0D then [CHR 0x5C, CHR ''r'']
      else if c = CHR 0x09 then [CHR 0x5C, CHR ''t'']
      else if (of_char c :: nat) < 32
        then [CHR 0x5C, CHR ''u'', CHR ''0'', CHR ''0'',
              hex_digit (of_char c div 16), hex_digit (of_char c mod 16)]
      else [c])"

definition json_quote :: "string \<Rightarrow> string" where
  "json_quote s = CHR 0x22 # concat (map json_escape s) @ [CHR 0x22]"

definition JSON_stringify :: "string list \<Rightarrow> string" where
  "JSON_stringify ss = ''['' @ join_comma (map json_quote ss) @ '']''"

text \<open>
  The \<open>forEach\<close> of the click handler: \<open>formData.append("files", entry.file,
  entry.file.name)\<close> and \<open>mainFolders.push(entry.mainFolder)\<close>, entry by entry. The
  three-argument \<open>append\<close> takes a Blob; for any other value it throws a TypeError.
\<close>

fun append_entries ::
  "engine \<Rightarrow> pending_entry list \<Rightarrow> form_data \<times> string list \<Rightarrow> js_error + form_data \<times> string list"
where
  "append_entries eng [] acc = Inr acc"
| "append_entries eng (entry # rest) (formData, mainFolders) =
     (case entry_file entry of
        NotFile s \<Rightarrow> Inl (TypeError (not_a_blob_message eng))
      | IsFile f \<Rightarrow>
          append_entries eng rest
            (formData @ [(''files'', FileValue f (file_name f))],
             mainFolders @ [mainFolder entry]))"

text \<open>
  The exception the \<open>if (!response.ok)\<close> block ends with: \<open>new Error(detail)\<close>, or what
  \<open>response.text()\<close> rejects with inside the inner \<open>catch\<close>.
\<close>

definition not_ok_error :: "engine \<Rightarrow> response \<Rightarrow> js_error" where
  "not_ok_error eng r =
     (let detail = JStr ''Server error.'';
          (parsed, used) = response_json eng r False;
          tried =
            (case parsed of
               Inl e \<Rightarrow> Inl e
             | Inr errorData \<Rightarrow>
                 (case get_prop (null_property_message eng) errorData ''detail'' of
                    Inl e \<Rightarrow> Inl e
                  | Inr d \<Rightarrow> Inr (js_or d detail)))
      in case tried of
           Inr d \<Rightarrow> Error (to_string d)
         | Inl e \<Rightarrow>
             (case fst (response_text eng r used) of
                Inl e2 \<Rightarrow> e2
              | Inr t \<Rightarrow> Error t))"

text \<open>
  The \<open>try\<close> block of the click handler; the result is the exception it ended with
  (\<open>None\<close> when it ran to its end) and the state it left.
\<close>

definition process_try ::
  "engine \<Rightarrow> string \<Rightarrow> fetch_outcome \<Rightarrow> app_page \<Rightarrow> js_error option \<times> app_page" where
  "process_try eng apiBase outcome p =
     (case append_entries eng (filesState p) ([], []) of
        Inl e \<Rightarrow> (Some e, p)
      | Inr (files_form, mainFolders) \<Rightarrow>
          (let formData = files_form
                 @ [(''base_names'', TextValue (JSON_stringify mainFolders))]
                 @ [(''main_folder'', TextValue (JSON_stringify mainFolders))];
               p1 = updateStatus ''Sending to server...'' p;
               req = \<lparr>req_method = ''POST'', req_url = apiBase @ ''/resize'',
                      req_credentials = None, req_body = FormBody formData\<rparr>;
               p2 = p1\<lparr>sent := sent p1 @ [req]\<rparr>
           in case outcome of
                Rejected m \<Rightarrow> (Some (TypeError m), p2)
              | Responded r \<Rightarrow>
                  if \<not> ok r then (Some (not_ok_error eng r), p2)
                  else
                    (case fst (response_blob eng r False) of
                       Inl e \<Rightarrow> (Some e, p2)
                     | Inr zipBlob \<Rightarrow>
                         (let zipName = ''resized_images.zip'';
                              p3 = createDownloadCard zipName zipBlob p2;
                              p4 = setProgress 1 p3
                          in (None, updateStatus ''All images processed and ready for download!'' p4)))))"

text \<open>The click handler: the guard, the \<open>try\<close>, the \<open>catch\<close> and the \<open>finally\<close>.\<close>

definition processBtn_click :: "engine \<Rightarrow> string \<Rightarrow> fetch_outcome \<Rightarrow> app_page \<Rightarrow> app_page" where
  "processBtn_click eng apiBase outcome p =
     (if filesState p = [] then updateStatus ''Add files first.'' p
      else
        (let p1 = p\<lparr>processBtn_disabled := True\<rparr>;
             p2 = p1\<lparr>downloadArea := []\<rparr>;
             p3 = updateStatus ''Processing images...'' p2;
             p4 = setProgress 0 p3;
             (thrown, p5) = process_try eng apiBase outcome p4;
             p6 = (case thrown of
                     None \<Rightarrow> p5
                   | Some error \<Rightarrow> updateStatus (''Error: '' @ message error) p5)
         in p6\<lparr>processBtn_disabled := False\<rparr>))"

section \<open>The signed-in user on the app page (app.js)\<close>

text \<open>
  The elements \<open>loadCurrentUser\<close> writes; each is \<open>None\<close> when the page has no such
  element (the script tests each before it writes). \<open>location_href\<close> is the address the
  script last assigned to \<open>window.location.href\<close>, \<open>None\<close> while it assigned none;
  \<open>requested\<close> is the log of the requests issued.
\<close>

record avatar_img =
  img_src :: string
  img_display :: string

record fallback_span =
  fallback_text :: string
  fallback_display :: string

record auth_view =
  profile_hidden :: "bool option"
  authActions_hidden :: "bool option"
  profileUsername_text :: "string option"
  profileName_text :: "string option"
  profileAvatar :: "avatar_img option"
  profileAvatarFallback :: "fallback_span option"
  location_href :: "string option"
  requested :: "request list"

record assets =
  femaleProfileUrl :: string
  maleProfileUrl :: string

text \<open>
  What the script reads of its page: the location, \<open>document.body.dataset.authToggle\<close>
  (\<open>None\<close> when the attribute is absent) and \<open>window.PIXELFIT_ASSETS\<close>.
\<close>

record page_env =
  hostname :: string
  origin :: string
  pathname :: string
  authToggle :: "string option"
  PIXELFIT_ASSETS :: "assets option"

definition ASSETS :: "page_env \<Rightarrow> assets" where
  "ASSETS env =
     (case PIXELFIT_ASSETS env of
        None \<Rightarrow> \<lparr>femaleProfileUrl = [], maleProfileUrl = []\<rparr>
      | Some a \<Rightarrow> a)"

text \<open>
  \<open>baseUsernameFromEmail\<close>. A value that is truthy and not a string has no \<open>split\<close>
  method: calling it throws.
\<close>

definition baseUsernameFromEmail :: "engine \<Rightarrow> js_value \<Rightarrow> js_error + string" where
  "baseUsernameFromEmail eng email =
     (if \<not> truthy email then Inr ''user''
      else (case email of
              JStr s \<Rightarrow> (let first = hd (split_on CHR ''@'' s)
                         in Inr (if first = [] then ''user'' else first))
            | _ \<Rightarrow> Inl (TypeError (not_a_function_message eng))))"

text \<open>The two writes of the \<open>catch\<close> block, which the signed-out branch makes as well.\<close>

definition show_signed_out :: "auth_view \<Rightarrow> auth_view" where
  "show_signed_out v =
     v\<lparr>profile_hidden := map_option (\<lambda>_. True) (profile_hidden v),
       authActions_hidden := map_option (\<lambda>_. False) (authActions_hidden v)\<rparr>"

text \<open>The person glyph U+1F464 the script writes into the fallback span.\<close>

definition person_glyph :: string where
  "person_glyph = [CHR 0xF0, CHR 0x9F, CHR 0x91, CHR 0xA4]"

definition set_avatar :: "page_env \<Rightarrow> js_value \<Rightarrow> auth_view \<Rightarrow> auth_view" where
  "set_avatar env user v =
     (case (profileAvatar v, profileAvatarFallback v) of
        (Some img, Some fb) \<Rightarrow>
          if truthy (prop_of user ''avatar_url'') then
            v\<lparr>profileAvatar := Some \<lparr>img_src = to_string (prop_of user ''avatar_url''),
                                     img_display = ''block''\<rparr>,
              profileAvatarFallback := Some (fb\<lparr>fallback_display := ''none''\<rparr>)\<rparr>
          else if prop_of user ''gender'' = JStr ''female'' then
            v\<lparr>profileAvatar := Some \<lparr>img_src = femaleProfileUrl (ASSETS env),
                                     img_display = ''block''\<rparr>,
              profileAvatarFallback := Some (fb\<lparr>fallback_display := ''none''\<rparr>)\<rparr>
          else if prop_of user ''gender'' = JStr ''male'' then
            v\<lparr>profileAvatar := Some \<lparr>img_src = maleProfileUrl (ASSETS env),
                                     img_display = ''block''\<rparr>,
              profileAvatarFallback := Some (fb\<lparr>fallback_display := ''none''\<rparr>)\<rparr>
          else
            v\<lparr>profileAvatar := Some \<lparr>img_src = [], img_display = ''none''\<rparr>,
              profileAvatarFallback :=
                Some \<lparr>fallback_text = person_glyph, fallback_display = ''block''\<rparr>\<rparr>
      | _ \<Rightarrow> v)"

text \<open>
  The part of the \<open>try\<close> block after a 2xx response: the exception it ended with, if any,
  and the state it left. \<open>user\<close> is \<open>data.user || {}\<close>, so it is truthy and its properties
  are read with \<open>prop_of\<close>.
\<close>

definition render_user ::
  "engine \<Rightarrow> page_env \<Rightarrow> response \<Rightarrow> auth_view \<Rightarrow> js_error option \<times> auth_view" where
  "render_user eng env r v =
     (case fst (response_json eng r False) of
        Inl e \<Rightarrow> (Some e, v)
      | Inr data \<Rightarrow>
          (case get_prop (null_property_message eng) data ''user'' of
             Inl e \<Rightarrow> (Some e, v)
           | Inr u \<Rightarrow>
               (let user = js_or u (JObj []);
                    v1 = v\<lparr>profile_hidden := map_option (\<lambda>_. False) (profile_hidden v)\<rparr>;
                    v2 = v1\<lparr>authActions_hidden := map_option (\<lambda>_. True) (authActions_hidden v1)\<rparr>;
                    named =
                      (case profileUsername_text v2 of
                         None \<Rightarrow> Inr v2
                       | Some old \<Rightarrow>
                           if truthy (prop_of user ''username'')
                           then Inr (v2\<lparr>profileUsername_text :=
                                        Some (to_string (prop_of user ''username''))\<rparr>)
                           else (case baseUsernameFromEmail eng
                                        (js_or (prop_of user ''email'') (JStr [])) of
                                   Inl e \<Rightarrow> Inl e
                                 | Inr s \<Rightarrow> Inr (v2\<lparr>profileUsername_text := Some s\<rparr>)))
                in case named of
                     Inl e \<Rightarrow> (Some e, v2)
                   | Inr v3 \<Rightarrow>
                       (let v4 = (case profileName_text v3 of
                                    None \<Rightarrow> v3
                                  | Some old \<Rightarrow>
                                      v3\<lparr>profileName_text :=
                                           Some (to_string
                                             (js_or (prop_of user ''name'')
                                                (js_or (prop_of user ''email'') (JStr []))))\<rparr>)
                        in (None, set_avatar env user v4)))))"

definition loadCurrentUser_app ::
  "engine \<Rightarrow> page_env \<Rightarrow> fetch_outcome \<Rightarrow> auth_view \<Rightarrow> auth_view" where
  "loadCurrentUser_app eng env outcome v =
     (if authToggle env = Some ''off'' then v
      else
        (let req = \<lparr>req_method = ''GET'',
                    req_url = API_BASE_app (hostname env) (origin env) @ ''/api/me'',
                    req_credentials = Some ''include'', req_body = NoBody\<rparr>;
             v1 = v\<lparr>requested := requested v @ [req]\<rparr>
         in case outcome of
              Rejected m \<Rightarrow> show_signed_out v1
            | Responded r \<Rightarrow>
                if \<not> ok r then
                  (if endsWith (pathname env) ''/app.html''
                      \<or> endsWith (pathname env) ''/Landing.html''
                   then v1\<lparr>location_href := Some ''login.html''\<rparr>
                   else show_signed_out v1)
                else
                  (case render_user eng env r v1 of
                     (None, v2) \<Rightarrow> v2
                   | (Some error, v2) \<Rightarrow> show_signed_out v2)))"

section \<open>Profile Controller (profile.js)\<close>

text \<open>
  The elements \<open>loadCurrentUser\<close> writes (it does not test them: writing to a missing
  one throws), the address assigned to \<open>window.location.href\<close>, the requests issued,
  the confirmation prompts shown, and the rejection an event handler left unhandled.
\<close>

record profile_page =
  userPanel_hidden :: "bool option"
  userGreeting_text :: "string option"
  usernameInput_value :: "string option"
  profile_location_href :: "string option"
  profile_requested :: "request list"
  prompts :: "string list"
  unhandled_rejection :: "js_error option"

definition to_login :: "profile_page \<Rightarrow> profile_page" where
  "to_login v = v\<lparr>profile_location_href := Some ''login.html''\<rparr>"

definition loadCurrentUser_profile ::
  "engine \<Rightarrow> string \<Rightarrow> fetch_outcome \<Rightarrow> profile_page \<Rightarrow> profile_page" where
  "loadCurrentUser_profile eng host outcome v =
     (let req = \<lparr>req_method = ''GET'', req_url = API_BASE_profile host @ ''/api/me'',
                 req_credentials = Some ''include'', req_body = NoBody\<rparr>;
          v1 = v\<lparr>profile_requested := profile_requested v @ [req]\<rparr>
      in case outcome of
           Rejected m \<Rightarrow> to_login v1
         | Responded r \<Rightarrow>
             if \<not> ok r then to_login v1
             else
               (case fst (response_json eng r False) of
                  Inl e \<Rightarrow> to_login v1
                | Inr data \<Rightarrow>
                    (case get_prop (null_property_message eng) data ''user'' of
                       Inl e \<Rightarrow> to_login v1
                     | Inr u \<Rightarrow>
                         (let user = js_or u (JObj [])
                          in case userPanel_hidden v1 of
                               None \<Rightarrow> to_login v1
                             | Some h \<Rightarrow>
                                 (let v2 = v1\<lparr>userPanel_hidden := Some False\<rparr>
                                  in case userGreeting_text v2 of
                                       None \<Rightarrow> to_login v2
                                     | Some g \<Rightarrow>
                                         (let v3 = v2\<lparr>userGreeting_text :=
                                                 Some (''Signed in as ''
                                                   @ to_string (js_or (prop_of user ''name'')
                                                                  (prop_of user ''email''))
                                                   @ ''.'')\<rparr>
                                          in case usernameInput_value v3 of
                                               None \<Rightarrow> to_login v3
                                             | Some old \<Rightarrow>
                                                 v3\<lparr>usernameInput_value :=
                                                      Some (to_string
                                                        (js_or (prop_of user ''username'')
                                                           (JStr [])))\<rparr>))))))"

text \<open>
  The click handler of \<open>signOutBtn\<close>. \<open>confirmed\<close> is the answer \<open>window.confirm\<close>
  returns. The \<open>await fetch\<close> stands outside any \<open>try\<close>: when it rejects, the handler
  ends there and the rejection is left unhandled.
\<close>

definition signOutBtn_click ::
  "string \<Rightarrow> bool \<Rightarrow> fetch_outcome \<Rightarrow> profile_page \<Rightarrow> profile_page" where
  "signOutBtn_click host confirmed outcome v =
     (let v1 = v\<lparr>prompts := prompts v @ [''Are You Sure You Want To Sign Out'']\<rparr>
      in if \<not> confirmed then v1
         else
           (let req = \<lparr>req_method = ''POST'', req_url = API_BASE_profile host @ ''/api/logout'',
                       req_credentials = Some ''include'', req_body = NoBody\<rparr>;
                v2 = v1\<lparr>profile_requested := profile_requested v1 @ [req]\<rparr>
            in case outcome of
                 Rejected m \<Rightarrow> v2\<lparr>unhandled_rejection := Some (TypeError m)\<rparr>
               | Responded r \<Rightarrow> v2\<lparr>profile_location_href := Some ''index.html''\<rparr>))"

section \<open>Editor Bridge (editor.js)\<close>

text \<open>
  \<open>statusEl\<close> (\<open>None\<close> when the page has no such element), the requests issued and the
  downloads the script started, each with its file name and content.
\<close>

record editor_page =
  statusEl_text :: "string option"
  editor_requested :: "request list"
  downloads :: "(string \<times> string) list"

text \<open>
  What the handler takes from its surroundings: the location, what the editor widget's
  \<open>toDataURL\<close> gives (the widget is not part of the repository), the browser's \<open>atob\<close>
  and \<open>Date.now()\<close>.
\<close>

record editor_env =
  editor_hostname :: string
  editor_origin :: string
  toDataURL :: "js_error + string"
  atob :: "string \<Rightarrow> js_error + string"
  now :: nat

definition setStatus :: "string \<Rightarrow> editor_page \<Rightarrow> editor_page" where
  "setStatus msg v =
     (case statusEl_text v of None \<Rightarrow> v | Some old \<Rightarrow> v\<lparr>statusEl_text := Some msg\<rparr>)"

text \<open>
  \<open>parts[0].match(/:(.*?);/)\<close>: from the leftmost colon that has a semicolon after it on
  the same line, the text between that colon and the first such semicolon. A dot of the
  pattern matches no line terminator (U+000A, U+000D, U+2028, U+2029).
\<close>

fun until_semicolon :: "string \<Rightarrow> string option" where
  "until_semicolon [] = None"
| "until_semicolon (c # cs) =
     (if c = CHR '';'' then Some []
      else if c = CHR 0x0A \<or> c = CHR 0x0D then None
      else if c = CHR 0xE2 \<and> (take 2 cs = [CHR 0x80, CHR 0xA8] \<or> take 2 cs = [CHR 0x80, CHR 0xA9])
        then None
      else map_option ((#) c) (until_semicolon cs))"

fun mime_match :: "string \<Rightarrow> string option" where
  "mime_match [] = None"
| "mime_match (c # cs) =
     (if c = CHR '':'' then
        (case until_semicolon cs of Some m \<Rightarrow> Some m | None \<Rightarrow> mime_match cs)
      else mime_match cs)"

record blob =
  blob_bytes :: "8 word list"
  blob_type :: string

text \<open>
  The type a \<open>Blob\<close> keeps of the \<open>type\<close> it is constructed with: the empty string when
  the text has a character outside U+0020 to U+007E, the text in ASCII lower case
  otherwise.
\<close>

definition ascii_lower :: "char \<Rightarrow> char" where
  "ascii_lower c =
     (if (65 :: nat) \<le> of_char c \<and> (of_char c :: nat) \<le> 90
      then char_of (of_char c + (32 :: nat)) else c)"

definition blob_type_of :: "string \<Rightarrow> string" where
  "blob_type_of t =
     (if list_all (\<lambda>c. (32 :: nat) \<le> of_char c \<and> (of_char c :: nat) \<le> 126) t
      then map ascii_lower t else [])"

text \<open>
  The loop \<open>for (let i = 0; i < byteString.length; i += 1) ia[i] = byteString.charCodeAt(i)\<close>
  over the zero-filled array \<open>ia\<close>.
\<close>

function fill_bytes :: "nat \<Rightarrow> string \<Rightarrow> 8 word list \<Rightarrow> 8 word list" where
  "fill_bytes i byteString ia =
     (if i < length byteString
      then fill_bytes (i + 1) byteString (ia[i := of_char (byteString ! i)])
      else ia)"
  by pat_completeness auto
termination
  by (relation "measure (\<lambda>(i, byteString, ia). length byteString - i)") auto

declare fill_bytes.simps [simp del]

text \<open>
  \<open>dataUrlToBlob\<close>. \<open>parts[1]\<close> is \<open>undefined\<close> when the URL has no comma, and \<open>atob\<close>
  is then given the text \<open>undefined\<close>.
\<close>

definition dataUrlToBlob :: "(string \<Rightarrow> js_error + string) \<Rightarrow> string \<Rightarrow> js_error + blob" where
  "dataUrlToBlob decode dataUrl =
     (let parts = split_on CHR '','' dataUrl;
          payload = (if 1 < length parts then parts ! 1 else ''undefined'')
      in case decode payload of
           Inl e \<Rightarrow> Inl e
         | Inr byteString \<Rightarrow>
             (let mime = (case mime_match (hd parts) of None \<Rightarrow> ''image/jpeg'' | Some m \<Rightarrow> m);
                  ia = fill_bytes 0 byteString (replicate (length byteString) 0)
              in Inr \<lparr>blob_bytes = ia, blob_type = blob_type_of mime\<rparr>))"

text \<open>The \<open>try\<close> block of the export handler.\<close>

definition export_try ::
  "engine \<Rightarrow> editor_env \<Rightarrow> fetch_outcome \<Rightarrow> editor_page \<Rightarrow> js_error option \<times> editor_page" where
  "export_try eng env outcome v =
     (let v1 = setStatus ''Exporting and generating sizes...'' v
      in case toDataURL env of
           Inl e \<Rightarrow> (Some e, v1)
         | Inr dataUrl \<Rightarrow>
             (case dataUrlToBlob (atob env) dataUrl of
                Inl e \<Rightarrow> (Some e, v1)
              | Inr blob \<Rightarrow>
                  (let filename = ''pixelfit_edit_'' @ dec_nat (now env) @ ''.jpeg'';
                       file = \<lparr>file_name = filename, file_type = ''image/jpeg'',
                               file_bytes = blob_bytes blob\<rparr>;
                       formData = [(''files'', FileValue file (file_name file))];
                       req = \<lparr>req_method = ''POST'',
                              req_url = API_BASE_editor (editor_hostname env) (editor_origin env)
                                          @ ''/resize'',
                              req_credentials = Some ''include'', req_body = FormBody formData\<rparr>;
                       v2 = v1\<lparr>editor_requested := editor_requested v1 @ [req]\<rparr>
                   in case outcome of
                        Rejected m \<Rightarrow> (Some (TypeError m), v2)
                      | Responded r \<Rightarrow>
                          if \<not> ok r then
                            (case fst (response_text eng r False) of
                               Inl e \<Rightarrow> (Some e, v2)
                             | Inr msg \<Rightarrow> (None, setStatus (''Resize failed: '' @ msg) v2))
                          else
                            (case fst (response_blob eng r False) of
                               Inl e \<Rightarrow> (Some e, v2)
                             | Inr zipBlob \<Rightarrow>
                                 (let v3 = v2\<lparr>downloads := downloads v2
                                              @ [(''pixelfit_resized_images.zip'', zipBlob)]\<rparr>
                                  in (None, setStatus ''Your ZIP is ready.'' v3))))))"

definition exportBtn_click ::
  "engine \<Rightarrow> editor_env \<Rightarrow> fetch_outcome \<Rightarrow> editor_page \<Rightarrow> editor_page" where
  "exportBtn_click eng env outcome v =
     (case export_try eng env outcome v of
        (None, v') \<Rightarrow> v'
      | (Some error, v') \<Rightarrow> setStatus ''Something went wrong while exporting.'' v')"

section \<open>Definitions for stating the properties\<close>

text \<open>
  The request the click handler sends for the files \<open>fs\<close> and the folder names
  \<open>folders\<close>.
\<close>

definition resize_request :: "string \<Rightarrow> file_obj list \<Rightarrow> string list \<Rightarrow> request" where
  "resize_request apiBase fs folders =
     \<lparr>req_method = ''POST'', req_url = apiBase @ ''/resize'', req_credentials = None,
      req_body = FormBody
        (map (\<lambda>f. (''files'', FileValue f (file_name f))) fs
         @ [(''base_names'', TextValue (JSON_stringify folders)),
            (''main_folder'', TextValue (JSON_stringify folders))])\<rparr>"

text \<open>
  The specification's wording for the initial folder name, "the filename with the final
  extension removed". The final extension of a name is the text after its last dot, when
  there is such text and it holds no \<open>/\<close> (so that it belongs to the last segment of the
  name); removing it removes that dot as well.
\<close>

definition final_extension :: "string \<Rightarrow> string option" where
  "final_extension name =
     (let ext = rev (takeWhile (\<lambda>c. c \<noteq> CHR ''.'') (rev name))
      in if CHR ''.'' \<in> set name \<and> ext \<noteq> [] \<and> CHR ''/'' \<notin> set ext then Some ext else None)"

definition without_final_extension :: "string \<Rightarrow> string" where
  "without_final_extension name =
     (case final_extension name of
        None \<Rightarrow> name
      | Some ext \<Rightarrow> take (length name - (length ext + 1)) name)"

text \<open>
  The events that change the Pending File Entry sequence or redraw it, and the page after
  one of them. An input event whose handler throws leaves the page as it was.
\<close>

datatype ui_event = Select_files "file_obj list option" | Input_event input_target | Render

definition step :: "engine \<Rightarrow> ui_event \<Rightarrow> app_page \<Rightarrow> app_page" where
  "step eng ev p =
     (case ev of
        Select_files files \<Rightarrow> fileInput_change files p
      | Input_event target \<Rightarrow>
          (case updateStateFromInputs eng target p of Inl e \<Rightarrow> p | Inr p' \<Rightarrow> p')
      | Render \<Rightarrow> renderFiles p)"

text \<open>A blank text: nothing is left of it once its white space is trimmed.\<close>

definition blank :: "string \<Rightarrow> bool" where
  "blank s = (trim s = [])"

text \<open>
  The process button agrees with the sequence: it is disabled exactly when the sequence
  is empty or some entry's \<open>mainFolder\<close> is blank.
\<close>

definition consistent :: "app_page \<Rightarrow> bool" where
  "consistent p =
     (processBtn_disabled p
        \<longleftrightarrow> filesState p = [] \<or> (\<exists>e \<in> set (filesState p). blank (mainFolder e)))"

text \<open>
  The selections and the pages the statement about the process button ranges over. The
  input handler trims the text it stores; the selection handler stores the name
  \<open>formatFileName\<close> gives as it is. A selection has no blank name when none of its files
  gets a blank initial folder name; a page has no white-space folder when none of its
  entries has a \<open>mainFolder\<close> that is blank and not empty.
\<close>

definition no_blank_names :: "file_obj list option \<Rightarrow> bool" where
  "no_blank_names files =
     list_all (\<lambda>f. \<not> blank (formatFileName (file_name f)))
       (case files of None \<Rightarrow> [] | Some l \<Rightarrow> l)"

definition no_whitespace_folder :: "app_page \<Rightarrow> bool" where
  "no_whitespace_folder p =
     list_all (\<lambda>e. blank (mainFolder e) \<longrightarrow> mainFolder e = []) (filesState p)"

fun event_ok :: "ui_event \<Rightarrow> bool" where
  "event_ok (Select_files files) = no_blank_names files"
| "event_ok (Input_event target) = True"
| "event_ok Render = True"

section \<open>Concrete inputs\<close>

text \<open>Inputs at which the theorems below are instantiated.\<close>

definition sample_engine :: engine where
  "sample_engine = \<lparr>body_used_message = ''body stream already read'',
     json_syntax_message = ''Unexpected token'',
     null_property_message = ''Cannot read properties of null'',
     not_a_blob_message = ''parameter 2 is not of type Blob'',
     undefined_entry_message = ''Cannot set properties of undefined'',
     not_a_function_message = ''email.split is not a function''\<rparr>"

definition signed_out_view :: auth_view where
  "signed_out_view = \<lparr>profile_hidden = Some False, authActions_hidden = Some True,
     profileUsername_text = Some [], profileName_text = Some [],
     profileAvatar = Some \<lparr>img_src = [], img_display = []\<rparr>,
     profileAvatarFallback = Some \<lparr>fallback_text = [], fallback_display = []\<rparr>,
     location_href = None, requested = []\<rparr>"

definition app_html :: page_env where
  "app_html = \<lparr>hostname = ''desto374.github.io'', origin = ''https://desto374.github.io'',
     pathname = ''/Image-Resizer/app.html'', authToggle = None, PIXELFIT_ASSETS = None\<rparr>"

definition unauthorized :: response where
  "unauthorized = \<lparr>status = 401,
     body = Some \<lparr>body_text = ''Unauthorized'', body_json = None\<rparr>\<rparr>"

definition fresh_profile_page :: profile_page where
  "fresh_profile_page = \<lparr>userPanel_hidden = Some True, userGreeting_text = Some [],
     usernameInput_value = Some [], profile_location_href = None, profile_requested = [],
     prompts = [], unhandled_rejection = None\<rparr>"

definition cat_png :: file_obj where
  "cat_png = \<lparr>file_name = ''cat.png'', file_type = ''image/png'',
               file_bytes = [137, 80, 78, 71]\<rparr>"

definition dot_png :: file_obj where
  "dot_png = \<lparr>file_name = ''.png'', file_type = [], file_bytes = []\<rparr>"

definition spaces_png :: file_obj where
  "spaces_png = \<lparr>file_name = ''  .png'', file_type = ''image/png'', file_bytes = []\<rparr>"

definition blank_page :: app_page where
  "blank_page = \<lparr>filesState = [], fileList = [], processBtn_disabled = False,
     progressFill_width = [], statusText = [], downloadArea = [], object_urls = [], sent = []\<rparr>"

definition two_entries :: "pending_entry list" where
  "two_entries = [\<lparr>entry_file = IsFile cat_png, mainFolder = ''cat'', other_props = []\<rparr>,
                  \<lparr>entry_file = IsFile dot_png, mainFolder = ''image'', other_props = []\<rparr>]"

definition loaded_page :: app_page where
  "loaded_page = blank_page\<lparr>filesState := two_entries\<rparr>"

definition blank_edit :: input_target where
  "blank_edit = \<lparr>tagName = ''INPUT'', index_number = Integer 1,
                  dataset_field = Some ''mainFolder'', target_value = ''  ''\<rparr>"

definition zip_response :: response where
  "zip_response = \<lparr>status = 200, body = Some \<lparr>body_text = ''PK'', body_json = None\<rparr>\<rparr>"

definition server_error :: response where
  "server_error = \<lparr>status = 500,
     body = Some \<lparr>body_text = ''Internal Server Error'', body_json = None\<rparr>\<rparr>"

definition bad_image :: response where
  \<open>bad_image = \<lparr>status = 422,
     body = Some \<lparr>body_text = ''{"detail": "bad image"}'',
                  body_json = Some (JObj [(''detail'', JStr ''bad image'')])\<rparr>\<rparr>\<close>

text \<open>An \<open>atob\<close> that knows one payload: \<open>QUJD\<close> is the base64 text of \<open>ABC\<close>.\<close>

definition atob_sample :: "string \<Rightarrow> js_error + string" where
  "atob_sample s =
     (if s = ''QUJD'' then Inr ''ABC''
      else Inl (InvalidCharacterError ''The string to be decoded is not correctly encoded.''))"

definition editor_sample :: editor_env where
  "editor_sample = \<lparr>editor_hostname = ''127.0.0.1'', editor_origin = ''http://127.0.0.1:5500'',
     toDataURL = Inr ''data:image/jpeg;base64,QUJD'', atob = atob_sample, now = 1700\<rparr>"

definition editor_start :: editor_page where
  "editor_start = \<lparr>statusEl_text = Some ''Editing: cat.png'', editor_requested = [],
     downloads = []\<rparr>"

section \<open>Environment Resolver: the base address\<close>

text \<open>
  C5. On every page, the host names \<open>localhost\<close> and \<open>127.0.0.1\<close> give the loopback
  base \<open>http://127.0.0.1:8000\<close>; every other host name gives the page's non-local base:
  the page's own origin in \<open>app.js\<close> and \<open>editor.js\<close>, a hardcoded deployed host in
  \<open>profile.js\<close> and in the login/signup script.
\<close>

theorem API_BASE_resolution:
  "(h = ''localhost'' \<or> h = ''127.0.0.1'' \<longrightarrow>
      API_BASE_app h og = ''http://127.0.0.1:8000''
      \<and> API_BASE_editor h og = ''http://127.0.0.1:8000''
      \<and> API_BASE_profile h = ''http://127.0.0.1:8000''
      \<and> API_BASE_auth h = ''http://127.0.0.1:8000'')
   \<and> (h \<noteq> ''localhost'' \<and> h \<noteq> ''127.0.0.1'' \<longrightarrow>
      API_BASE_app h og = og
      \<and> API_BASE_editor h og = og
      \<and> API_BASE_profile h = ''https://image-resizer-rxnr.onrender.com''
      \<and> API_BASE_auth h = ''https://image-resizer-deao.onrender.com'')"
  by (simp add: API_BASE_app_def API_BASE_editor_def API_BASE_profile_def API_BASE_auth_def
      IS_LOCAL_def)

theorem API_BASE_resolution_witness:
  "API_BASE_app ''localhost'' ''http://localhost:5500'' = ''http://127.0.0.1:8000''
   \<and> API_BASE_profile ''127.0.0.1'' = ''http://127.0.0.1:8000''
   \<and> API_BASE_editor ''desto374.github.io'' ''https://desto374.github.io''
       = ''https://desto374.github.io''
   \<and> API_BASE_auth ''desto374.github.io'' = ''https://image-resizer-deao.onrender.com''"
  using API_BASE_resolution [of "''localhost''" "''http://localhost:5500''"]
    API_BASE_resolution [of "''127.0.0.1''" "''http://127.0.0.1:5500''"]
    API_BASE_resolution [of "''desto374.github.io''" "''https://desto374.github.io''"]
  by simp

section \<open>The signed-in user: redirects\<close>

text \<open>
  C10. When the page body carries \<open>data-auth-toggle="off"\<close>, \<open>loadCurrentUser\<close> of
  \<open>app.js\<close> returns at once: the state it leaves is the state it found, so no request
  was issued, no address was assigned to \<open>window.location.href\<close> and no element was
  written, whatever the path of the page and whatever the server would have answered.
\<close>

theorem authToggle_off_skips_loadCurrentUser:
  "authToggle env = Some ''off'' \<Longrightarrow> loadCurrentUser_app eng env outcome v = v"
  by (simp add: loadCurrentUser_app_def)

theorem authToggle_off_skips_loadCurrentUser_witness:
  "authToggle (app_html\<lparr>authToggle := Some ''off''\<rparr>) = Some ''off''
   \<and> loadCurrentUser_app sample_engine (app_html\<lparr>authToggle := Some ''off''\<rparr>)
         (Responded unauthorized) signed_out_view = signed_out_view"
  using authToggle_off_skips_loadCurrentUser
    [of "app_html\<lparr>authToggle := Some ''off''\<rparr>" sample_engine "Responded unauthorized" signed_out_view]
  by simp

lemma unauthorized_not_ok: "\<not> ok unauthorized"
  by (simp add: ok_def unauthorized_def)

lemma app_html_path: "endsWith (pathname app_html) ''/app.html''"
  by (simp add: endsWith_def app_html_def suffix_def)

text \<open>
  C7. When \<open>GET /api/me\<close> is answered with a status outside 200 to 299, the page
  navigates to \<open>login.html\<close> and writes no element: the state left differs from the
  state found only in the request logged and the address assigned. \<open>profile.js\<close> does so
  on every page. \<open>app.js\<close> does so on the protected pages, which it recognises by a path
  that ends in the segment \<open>/app.html\<close> or \<open>/Landing.html\<close>, provided it issues the
  request at all (the page has not switched the check off, see C10).
\<close>

theorem protected_page_redirects_to_login:
  assumes "\<not> ok r"
  shows "loadCurrentUser_profile eng h (Responded r) w
           = w\<lparr>profile_requested := profile_requested w
                  @ [\<lparr>req_method = ''GET'', req_url = API_BASE_profile h @ ''/api/me'',
                      req_credentials = Some ''include'', req_body = NoBody\<rparr>],
                profile_location_href := Some ''login.html''\<rparr>
         \<and> (authToggle env \<noteq> Some ''off''
              \<and> (endsWith (pathname env) ''/app.html'' \<or> endsWith (pathname env) ''/Landing.html'')
            \<longrightarrow> loadCurrentUser_app eng env (Responded r) v
                  = v\<lparr>requested := requested v
                         @ [\<lparr>req_method = ''GET'',
                             req_url = API_BASE_app (hostname env) (origin env) @ ''/api/me'',
                             req_credentials = Some ''include'', req_body = NoBody\<rparr>],
                       location_href := Some ''login.html''\<rparr>)"
  using assms by (simp add: loadCurrentUser_profile_def loadCurrentUser_app_def to_login_def)

theorem protected_page_redirects_to_login_witness:
  "\<not> ok unauthorized \<and> authToggle app_html \<noteq> Some ''off''
   \<and> endsWith (pathname app_html) ''/app.html''
   \<and> location_href (loadCurrentUser_app sample_engine app_html (Responded unauthorized) signed_out_view)
       = Some ''login.html''
   \<and> profile_hidden (loadCurrentUser_app sample_engine app_html (Responded unauthorized) signed_out_view)
       = Some False
   \<and> profile_location_href
         (loadCurrentUser_profile sample_engine ''localhost'' (Responded unauthorized) fresh_profile_page)
       = Some ''login.html''"
  using protected_page_redirects_to_login
    [OF unauthorized_not_ok, of sample_engine "''localhost''" fresh_profile_page app_html signed_out_view]
    unauthorized_not_ok app_html_path
  by (simp add: app_html_def signed_out_view_def)

section \<open>Sign-out\<close>

text \<open>
  What the sign-out handler does on the paths where it runs to its end: a declined
  prompt leaves everything but the prompt log as it was; a confirmed one issues the logout
  request and, whatever the response, navigates to \<open>index.html\<close>.
\<close>

lemma signOut_declined:
  "signOutBtn_click h False outcome w
     = w\<lparr>prompts := prompts w @ [''Are You Sure You Want To Sign Out'']\<rparr>"
  by (simp add: signOutBtn_click_def)

lemma signOut_confirmed_response:
  "signOutBtn_click h True (Responded r) w
     = w\<lparr>prompts := prompts w @ [''Are You Sure You Want To Sign Out''],
          profile_requested := profile_requested w
            @ [\<lparr>req_method = ''POST'', req_url = API_BASE_profile h @ ''/api/logout'',
                req_credentials = Some ''include'', req_body = NoBody\<rparr>],
          profile_location_href := Some ''index.html''\<rparr>"
  by (simp add: signOutBtn_click_def)

text \<open>
  C8. The claim holds on the two paths above and fails on the third: when the user
  confirms and the logout request is rejected (the server cannot be reached), the handler
  ends at the \<open>await\<close>. The request was issued, no address is assigned to
  \<open>window.location.href\<close>, no message is written, and the rejection is left unhandled.
  Every other request of the repository is wrapped in a \<open>try\<close> or followed by a
  \<open>catch\<close>.
\<close>

theorem signOut_network_failure_skips_navigation:
  "profile_location_href
      (signOutBtn_click ''desto374.github.io'' True (Rejected ''Failed to fetch'') fresh_profile_page)
     = None
   \<and> unhandled_rejection
      (signOutBtn_click ''desto374.github.io'' True (Rejected ''Failed to fetch'') fresh_profile_page)
     = Some (TypeError ''Failed to fetch'')
   \<and> profile_requested
      (signOutBtn_click ''desto374.github.io'' True (Rejected ''Failed to fetch'') fresh_profile_page)
     = [\<lparr>req_method = ''POST'',
         req_url = ''https://image-resizer-rxnr.onrender.com/api/logout'',
         req_credentials = Some ''include'', req_body = NoBody\<rparr>]"
  by (simp add: signOutBtn_click_def fresh_profile_page_def API_BASE_profile_def IS_LOCAL_def)

section \<open>File selection\<close>

lemma replace_extension_no_dot: "CHR ''.'' \<notin> set s \<Longrightarrow> replace_extension s = s"
  by (induction s) auto

lemma replace_extension_last_dot:
  assumes "CHR ''.'' \<notin> set ext"
  shows "replace_extension (stem @ CHR ''.'' # ext)
           = (if ext \<noteq> [] \<and> CHR ''/'' \<notin> set ext then stem else stem @ CHR ''.'' # ext)"
proof (induction stem)
  case Nil
  show ?case
    using assms by (auto simp: replace_extension_no_dot list_all_iff)
next
  case (Cons c stem)
  have "\<not> list_all (\<lambda>d. d \<noteq> CHR ''/'' \<and> d \<noteq> CHR ''.'') (stem @ CHR ''.'' # ext)"
    by (simp add: list_all_iff)
  then show ?case
    using Cons.IH by simp
qed

lemma without_final_extension_last_dot:
  assumes "CHR ''.'' \<notin> set ext"
  shows "without_final_extension (stem @ CHR ''.'' # ext)
           = (if ext \<noteq> [] \<and> CHR ''/'' \<notin> set ext then stem else stem @ CHR ''.'' # ext)"
proof -
  have "takeWhile (\<lambda>c. c \<noteq> CHR ''.'') (rev ext @ CHR ''.'' # rev stem) = rev ext"
    using assms by (simp add: takeWhile_append)
  then show ?thesis
    by (simp add: without_final_extension_def final_extension_def)
qed

text \<open>The pattern of \<open>formatFileName\<close> removes exactly the final extension.\<close>

lemma replace_extension_spec: "replace_extension name = without_final_extension name"
proof (cases "CHR ''.'' \<in> set name")
  case True
  then obtain stem ext where "name = stem @ CHR ''.'' # ext" and "CHR ''.'' \<notin> set ext"
    by (auto dest: split_list_last)
  then show ?thesis
    by (simp add: replace_extension_last_dot without_final_extension_last_dot)
next
  case False
  then show ?thesis
    by (simp add: replace_extension_no_dot without_final_extension_def final_extension_def)
qed

lemma filesState_fileInput_change:
  "filesState (fileInput_change files p)
     = map new_entry (case files of None \<Rightarrow> [] | Some l \<Rightarrow> l)"
  by (simp add: fileInput_change_def Let_def renderFiles_def updateStatus_def setProgress_def)

lemma without_final_extension_samples:
  "without_final_extension ''cat.png'' = ''cat''"
  "without_final_extension ''.png'' = []"
  "without_final_extension ''archive.tar.gz'' = ''archive.tar''"
  "without_final_extension ''README'' = ''README''"
  by (simp_all add: without_final_extension_def final_extension_def)

text \<open>
  C2. Selecting the files \<open>files\<close> makes the Pending File Entry sequence as long as
  \<open>files\<close>; its \<open>i\<close>-th entry holds the \<open>i\<close>-th file, and its \<open>mainFolder\<close> is that
  file's name with the final extension removed, or \<open>image\<close> when nothing is left of the
  name. (This holds for every selection, the empty one included.)
\<close>

theorem file_selection_entries:
  "length (filesState (fileInput_change (Some files) p)) = length files
   \<and> (\<forall>i < length files.
         entry_file (filesState (fileInput_change (Some files) p) ! i) = IsFile (files ! i)
         \<and> mainFolder (filesState (fileInput_change (Some files) p) ! i)
             = (if without_final_extension (file_name (files ! i)) = [] then ''image''
                else without_final_extension (file_name (files ! i))))"
  by (simp add: filesState_fileInput_change new_entry_def formatFileName_def
      replace_extension_spec Let_def)

theorem file_selection_entries_witness:
  "length (filesState (fileInput_change (Some [cat_png, dot_png]) blank_page)) = 2
   \<and> entry_file (filesState (fileInput_change (Some [cat_png, dot_png]) blank_page) ! 0)
       = IsFile cat_png
   \<and> mainFolder (filesState (fileInput_change (Some [cat_png, dot_png]) blank_page) ! 0) = ''cat''
   \<and> entry_file (filesState (fileInput_change (Some [cat_png, dot_png]) blank_page) ! 1)
       = IsFile dot_png
   \<and> mainFolder (filesState (fileInput_change (Some [cat_png, dot_png]) blank_page) ! 1)
       = ''image''"
  using file_selection_entries [of "[cat_png, dot_png]" blank_page, THEN conjunct1]
    file_selection_entries [of "[cat_png, dot_png]" blank_page, THEN conjunct2, rule_format, of 0]
    file_selection_entries [of "[cat_png, dot_png]" blank_page, THEN conjunct2, rule_format, of 1]
  by (simp add: cat_png_def dot_png_def without_final_extension_samples)

section \<open>The process button and the sequence\<close>

subsection \<open>Trimming\<close>

lemma strip_leading_fixed:
  "find (\<lambda>w. w \<noteq> [] \<and> prefix w s) ws = None \<Longrightarrow> strip_leading ws s = s"
  by (subst strip_leading.simps) simp

lemma strip_leading_clean:
  "find (\<lambda>w. w \<noteq> [] \<and> prefix w (strip_leading ws s)) ws = None"
proof (induction ws s rule: strip_leading.induct)
  case (1 ws s)
  show ?case
  proof (cases "find (\<lambda>w. w \<noteq> [] \<and> prefix w s) ws")
    case None
    then show ?thesis by (simp add: strip_leading_fixed)
  next
    case (Some w)
    then have "strip_leading ws s = strip_leading ws (drop (length w) s)"
      by (subst strip_leading.simps) simp
    then show ?thesis using "1.IH" [OF Some] by simp
  qed
qed

lemma strip_leading_drop: "\<exists>k. strip_leading ws s = drop k s"
proof (induction ws s rule: strip_leading.induct)
  case (1 ws s)
  show ?case
  proof (cases "find (\<lambda>w. w \<noteq> [] \<and> prefix w s) ws")
    case None
    then have "strip_leading ws s = drop 0 s" by (simp add: strip_leading_fixed)
    then show ?thesis by blast
  next
    case (Some w)
    then have "strip_leading ws s = strip_leading ws (drop (length w) s)"
      by (subst strip_leading.simps) simp
    moreover obtain k where "strip_leading ws (drop (length w) s) = drop k (drop (length w) s)"
      using "1.IH" [OF Some] by blast
    ultimately have "strip_leading ws s = drop (k + length w) s" by simp
    then show ?thesis by blast
  qed
qed

lemma clean_take:
  assumes "find (\<lambda>w. w \<noteq> [] \<and> prefix w s) ws = None"
  shows "find (\<lambda>w. w \<noteq> [] \<and> prefix w (take n s)) ws = None"
proof -
  have "prefix w s" if "prefix w (take n s)" for w
    using that take_is_prefix prefix_order.order_trans by blast
  then show ?thesis
    using assms by (auto simp: find_None_iff)
qed

text \<open>Trimming a trimmed text changes nothing.\<close>

lemma trim_trim: "trim (trim s) = trim s"
proof -
  define a where "a = strip_leading white_space s"
  define u where "u = strip_leading (map rev white_space) (rev a)"
  have t: "trim s = rev u"
    by (simp add: trim_def a_def u_def)
  obtain k where "u = drop k (rev a)"
    unfolding u_def using strip_leading_drop by blast
  then have "rev u = take (length a - k) a"
    by (simp add: rev_drop)
  moreover have "find (\<lambda>w. w \<noteq> [] \<and> prefix w a) white_space = None"
    unfolding a_def by (rule strip_leading_clean)
  ultimately have "strip_leading white_space (rev u) = rev u"
    by (simp add: strip_leading_fixed clean_take)
  moreover have "strip_leading (map rev white_space) u = u"
    unfolding u_def by (rule strip_leading_fixed [OF strip_leading_clean])
  ultimately have "trim (rev u) = rev u"
    by (simp add: trim_def)
  then show ?thesis by (simp add: t)
qed

lemma blank_trim: "blank (trim v) \<longleftrightarrow> trim v = []"
  by (simp add: blank_def trim_trim)

lemma blank_empty: "blank []"
  unfolding blank_def by code_simp

lemma trim_two_spaces: "trim ''  '' = []"
  by code_simp

lemma not_blank_samples: "\<not> blank ''cat''" "\<not> blank ''image''"
  unfolding blank_def by code_simp+

subsection \<open>The button after each event\<close>

lemma every_mainFolder_iff:
  "every_mainFolder es \<longleftrightarrow> (\<forall>e \<in> set es. mainFolder e \<noteq> [])"
  by (simp add: every_mainFolder_def list_all_iff)

text \<open>Where no folder name is white space only, blank and empty are the same.\<close>

lemma some_blank_iff:
  assumes "no_whitespace_folder p"
  shows "(\<exists>e \<in> set (filesState p). blank (mainFolder e)) \<longleftrightarrow> \<not> every_mainFolder (filesState p)"
proof -
  have "blank (mainFolder e) \<longleftrightarrow> mainFolder e = []" if "e \<in> set (filesState p)" for e
    using assms that blank_empty by (auto simp: no_whitespace_folder_def list_all_iff)
  then show ?thesis
    by (simp add: every_mainFolder_iff cong: bex_cong)
qed

lemma filesState_renderFiles: "filesState (renderFiles p) = filesState p"
  by (simp add: renderFiles_def)

lemma no_whitespace_folder_renderFiles:
  "no_whitespace_folder p \<Longrightarrow> no_whitespace_folder (renderFiles p)"
  by (simp add: no_whitespace_folder_def filesState_renderFiles)

lemma consistent_renderFiles:
  assumes "no_whitespace_folder p"
  shows "consistent (renderFiles p)"
proof -
  have "processBtn_disabled (renderFiles p)
          \<longleftrightarrow> filesState p = [] \<or> \<not> every_mainFolder (filesState p)"
    by (auto simp: renderFiles_def every_mainFolder_def)
  then show ?thesis
    using some_blank_iff [OF assms] by (simp add: consistent_def filesState_renderFiles)
qed

lemma no_whitespace_folder_fileInput_change:
  assumes "no_blank_names files"
  shows "no_whitespace_folder (fileInput_change files p)"
  using assms
  by (auto simp: no_whitespace_folder_def no_blank_names_def filesState_fileInput_change
      new_entry_def list_all_iff)

lemma consistent_fileInput_change:
  assumes "no_blank_names files"
  shows "consistent (fileInput_change files p)"
proof -
  let ?q = "updateStatus ''Files loaded. Add folder names and hit process.''
              (setProgress 0
                (p\<lparr>filesState := map new_entry (case files of None \<Rightarrow> [] | Some l \<Rightarrow> l)\<rparr>
                  \<lparr>downloadArea := []\<rparr>))"
  have "no_whitespace_folder ?q"
    using assms
    by (auto simp: no_whitespace_folder_def no_blank_names_def updateStatus_def setProgress_def
        new_entry_def list_all_iff)
  then have "consistent (renderFiles ?q)"
    by (rule consistent_renderFiles)
  then show ?thesis
    by (simp add: fileInput_change_def Let_def)
qed

lemma mainFolder_set_prop:
  "mainFolder (set_prop e field v) = (if field = ''mainFolder'' then v else mainFolder e)"
  by (simp add: set_prop_def)

text \<open>
  An input event that the handler accepts either changes nothing or writes the trimmed
  value into one property of one entry and recomputes the button.
\<close>

lemma updateStateFromInputs_cases:
  assumes "updateStateFromInputs eng target p = Inr p'"
  shows "p' = p
         \<or> (\<exists>i field. i < length (filesState p)
               \<and> filesState p'
                   = (filesState p)
                       [i := set_prop (filesState p ! i) field (trim (target_value target))]
               \<and> processBtn_disabled p' = (\<not> every_mainFolder (filesState p')))"
proof (cases "p' = p")
  case True
  then show ?thesis by simp
next
  case False
  then obtain field i where "nat i < length (filesState p)"
    and "p' = p\<lparr>filesState :=
                   (filesState p)
                     [nat i := set_prop (filesState p ! nat i) field (trim (target_value target))],
                 processBtn_disabled :=
                   \<not> every_mainFolder
                       ((filesState p)
                          [nat i := set_prop (filesState p ! nat i) field
                                      (trim (target_value target))])\<rparr>"
    using assms
    by (auto simp: updateStateFromInputs_def Let_def
        split: if_splits option.splits js_number.splits)
  then show ?thesis
    by (intro disjI2 exI [of _ "nat i"] exI [of _ field]) simp
qed

lemma no_whitespace_folder_update:
  assumes "no_whitespace_folder p" and "i < length (filesState p)"
    and "filesState p' = (filesState p)[i := set_prop (filesState p ! i) field (trim v)]"
  shows "no_whitespace_folder p'"
proof -
  have old: "blank (mainFolder e) \<longrightarrow> mainFolder e = []" if "e \<in> set (filesState p)" for e
    using assms(1) that by (simp add: no_whitespace_folder_def list_all_iff)
  have new: "blank (mainFolder (set_prop (filesState p ! i) field (trim v)))
               \<longrightarrow> mainFolder (set_prop (filesState p ! i) field (trim v)) = []"
    using old [of "filesState p ! i"] assms(2)
    by (simp add: mainFolder_set_prop blank_trim)
  have "e = set_prop (filesState p ! i) field (trim v) \<or> e \<in> set (filesState p)"
    if "e \<in> set (filesState p')" for e
    using that set_update_subset_insert [of "filesState p" i] by (auto simp: assms(3))
  then show ?thesis
    using old new by (auto simp: no_whitespace_folder_def list_all_iff)
qed

lemma step_keeps:
  assumes "consistent p" and "no_whitespace_folder p" and "event_ok ev"
  shows "consistent (step eng ev p) \<and> no_whitespace_folder (step eng ev p)"
proof (cases ev)
  case (Select_files files)
  then show ?thesis
    using assms(3)
    by (simp add: step_def consistent_fileInput_change no_whitespace_folder_fileInput_change)
next
  case (Input_event target)
  show ?thesis
  proof (cases "updateStateFromInputs eng target p")
    case (Inl e)
    then show ?thesis using assms Input_event by (simp add: step_def)
  next
    case (Inr p')
    have step: "step eng ev p = p'"
      using Inr Input_event by (simp add: step_def)
    from updateStateFromInputs_cases [OF Inr] show ?thesis
    proof
      assume "p' = p"
      then show ?thesis using assms step by simp
    next
      assume "\<exists>i field. i < length (filesState p)
               \<and> filesState p'
                   = (filesState p)
                       [i := set_prop (filesState p ! i) field (trim (target_value target))]
               \<and> processBtn_disabled p' = (\<not> every_mainFolder (filesState p'))"
      then obtain i field where i: "i < length (filesState p)"
        and fs: "filesState p'
                   = (filesState p)
                       [i := set_prop (filesState p ! i) field (trim (target_value target))]"
        and btn: "processBtn_disabled p' = (\<not> every_mainFolder (filesState p'))"
        by blast
      have tidy: "no_whitespace_folder p'"
        by (rule no_whitespace_folder_update [OF assms(2) i fs])
      have "filesState p' \<noteq> []"
        using i fs by auto
      then have "consistent p'"
        using btn some_blank_iff [OF tidy] by (simp add: consistent_def)
      then show ?thesis using tidy step by simp
    qed
  qed
next
  case Render
  then show ?thesis
    using assms(2)
    by (simp add: step_def consistent_renderFiles no_whitespace_folder_renderFiles)
qed

lemma fold_keeps:
  "consistent p \<Longrightarrow> no_whitespace_folder p \<Longrightarrow> list_all event_ok evs \<Longrightarrow>
   consistent (fold (step eng) evs p)"
proof (induction evs arbitrary: p)
  case Nil
  then show ?case by simp
next
  case (Cons ev evs)
  then show ?case
    using step_keeps [of p ev eng] by simp
qed

lemma folder_edit:
  assumes "i < length (filesState p)"
  shows "updateStateFromInputs eng
           \<lparr>tagName = ''INPUT'', index_number = Integer (int i),
            dataset_field = Some ''mainFolder'', target_value = val\<rparr> p
         = Inr (p\<lparr>filesState := (filesState p)[i := (filesState p ! i)\<lparr>mainFolder := trim val\<rparr>],
                 processBtn_disabled :=
                   \<not> every_mainFolder
                       ((filesState p)[i := (filesState p ! i)\<lparr>mainFolder := trim val\<rparr>])\<rparr>)"
  using assms by (simp add: updateStateFromInputs_def Let_def set_prop_def)

text \<open>
  C1, as the code has it by design. Take selections in which no file gets a blank
  initial folder name. After a file selection, and after any further selections, input
  events and re-renders, the process button is disabled exactly when the sequence is
  empty or some entry's \<open>mainFolder\<close> is blank; the same holds from a re-render of a page
  none of whose folder names is white space only. A folder-name edit of the \<open>i\<close>-th entry
  stores the trimmed value: an edit to blank text disables the button, and on a page
  without white-space folder names the button is then disabled exactly when some entry's
  \<open>mainFolder\<close> is blank, so that a later edit to a non-blank text enables it again when
  no other entry is blank.
\<close>

theorem process_action_enabled_iff:
  "(no_blank_names files \<and> list_all event_ok evs
      \<longrightarrow> consistent (fold (step eng) evs (fileInput_change files p)))
   \<and> (no_whitespace_folder p \<and> list_all event_ok evs
      \<longrightarrow> consistent (fold (step eng) evs (renderFiles p)))
   \<and> (i < length (filesState p) \<longrightarrow>
        (\<exists>p'. updateStateFromInputs eng
                 \<lparr>tagName = ''INPUT'', index_number = Integer (int i),
                  dataset_field = Some ''mainFolder'', target_value = val\<rparr> p = Inr p'
             \<and> filesState p' = (filesState p)[i := (filesState p ! i)\<lparr>mainFolder := trim val\<rparr>]
             \<and> (blank val \<longrightarrow> processBtn_disabled p')
             \<and> (no_whitespace_folder p \<longrightarrow>
                  (processBtn_disabled p'
                     \<longleftrightarrow> (\<exists>e \<in> set (filesState p'). blank (mainFolder e))))))"
proof (intro conjI impI)
  assume "no_blank_names files \<and> list_all event_ok evs"
  then show "consistent (fold (step eng) evs (fileInput_change files p))"
    by (simp add: fold_keeps consistent_fileInput_change no_whitespace_folder_fileInput_change)
next
  assume "no_whitespace_folder p \<and> list_all event_ok evs"
  then show "consistent (fold (step eng) evs (renderFiles p))"
    by (simp add: fold_keeps consistent_renderFiles no_whitespace_folder_renderFiles)
next
  assume i: "i < length (filesState p)"
  let ?fs = "(filesState p)[i := (filesState p ! i)\<lparr>mainFolder := trim val\<rparr>]"
  let ?p' = "p\<lparr>filesState := ?fs, processBtn_disabled := \<not> every_mainFolder ?fs\<rparr>"
  have fs: "filesState ?p' = (filesState p)[i := set_prop (filesState p ! i) ''mainFolder'' (trim val)]"
    by (simp add: set_prop_def)
  have blank_disables: "blank val \<longrightarrow> processBtn_disabled ?p'"
  proof
    assume "blank val"
    then have "mainFolder (?fs ! i) = []"
      using i by (simp add: blank_def)
    moreover have "?fs ! i \<in> set ?fs"
      using i by (simp add: set_update_memI)
    ultimately show "processBtn_disabled ?p'"
      by (auto simp: every_mainFolder_iff)
  qed
  have iff: "no_whitespace_folder p \<longrightarrow>
               (processBtn_disabled ?p' \<longleftrightarrow> (\<exists>e \<in> set (filesState ?p'). blank (mainFolder e)))"
  proof
    assume "no_whitespace_folder p"
    then have "no_whitespace_folder ?p'"
      by (rule no_whitespace_folder_update [OF _ i fs])
    then show "processBtn_disabled ?p' \<longleftrightarrow> (\<exists>e \<in> set (filesState ?p'). blank (mainFolder e))"
      using some_blank_iff [of ?p'] by simp
  qed
  show "\<exists>p'. updateStateFromInputs eng
                 \<lparr>tagName = ''INPUT'', index_number = Integer (int i),
                  dataset_field = Some ''mainFolder'', target_value = val\<rparr> p = Inr p'
             \<and> filesState p' = ?fs
             \<and> (blank val \<longrightarrow> processBtn_disabled p')
             \<and> (no_whitespace_folder p \<longrightarrow>
                  (processBtn_disabled p'
                     \<longleftrightarrow> (\<exists>e \<in> set (filesState p'). blank (mainFolder e))))"
    using folder_edit [OF i, of eng val] blank_disables iff
    by (intro exI [of _ ?p']) simp
qed

lemma sample_no_blank_names: "no_blank_names (Some [cat_png, dot_png])"
  by (simp add: no_blank_names_def cat_png_def dot_png_def formatFileName_def
      replace_extension_spec without_final_extension_samples not_blank_samples)

lemma loaded_page_no_whitespace_folder: "no_whitespace_folder loaded_page"
  by (simp add: no_whitespace_folder_def loaded_page_def two_entries_def not_blank_samples)

theorem process_action_enabled_iff_witness:
  "no_blank_names (Some [cat_png, dot_png])
   \<and> list_all event_ok [Input_event blank_edit, Render]
   \<and> no_whitespace_folder loaded_page
   \<and> 1 < length (filesState loaded_page) \<and> blank ''  ''
   \<and> consistent (fold (step sample_engine) [Input_event blank_edit, Render]
                   (fileInput_change (Some [cat_png, dot_png]) loaded_page))
   \<and> consistent (fold (step sample_engine) [Input_event blank_edit, Render]
                   (renderFiles loaded_page))
   \<and> (\<exists>p'. updateStateFromInputs sample_engine blank_edit loaded_page = Inr p'
         \<and> processBtn_disabled p'
         \<and> (\<exists>e \<in> set (filesState p'). blank (mainFolder e)))"
  using process_action_enabled_iff
    [of "Some [cat_png, dot_png]" "[Input_event blank_edit, Render]" sample_engine loaded_page
        1 "''  ''"]
    sample_no_blank_names loaded_page_no_whitespace_folder
  by (auto simp: loaded_page_def two_entries_def blank_edit_def blank_def trim_two_spaces)

text \<open>
  C1, as the claim states it, fails on the empty sequence: after a re-render of a page
  without entries, and after a selection of no file, every entry of the sequence has a
  non-blank \<open>mainFolder\<close> (there is none), and the process button is disabled.
\<close>

theorem empty_sequence_disables_process:
  "every_mainFolder (filesState (renderFiles blank_page))
   \<and> processBtn_disabled (renderFiles blank_page)
   \<and> every_mainFolder (filesState (fileInput_change (Some []) blank_page))
   \<and> processBtn_disabled (fileInput_change (Some []) blank_page)"
  by (simp add: every_mainFolder_def fileInput_change_def Let_def
      renderFiles_def updateStatus_def setProgress_def blank_page_def)

text \<open>
  The selections set aside above. The input handler trims what it stores and the
  selection handler does not: a file named \<open>  .png\<close> gets the initial folder name of two
  spaces, which is blank, and the process button is enabled. The statement of C1 above
  says nothing about such a selection.
\<close>

lemma whitespace_file_name_enables_process:
  "map mainFolder (filesState (fileInput_change (Some [spaces_png]) blank_page)) = [''  '']
   \<and> blank ''  ''
   \<and> \<not> processBtn_disabled (fileInput_change (Some [spaces_png]) blank_page)"
proof -
  have "without_final_extension ''  .png'' = ''  ''"
    by (simp add: without_final_extension_def final_extension_def)
  then have "formatFileName ''  .png'' = ''  ''"
    by (simp add: formatFileName_def replace_extension_spec)
  then show ?thesis
    by (simp add: fileInput_change_def Let_def renderFiles_def updateStatus_def setProgress_def
        new_entry_def spaces_png_def every_mainFolder_def blank_def trim_two_spaces)
qed

section \<open>Processing a batch\<close>

lemma dec_nat_100: "dec_nat 100 = ''100''"
  by code_simp

lemma append_entries_files:
  "map entry_file es = map IsFile fs \<Longrightarrow>
   append_entries eng es (formData, mainFolders)
     = Inr (formData @ map (\<lambda>f. (''files'', FileValue f (file_name f))) fs,
            mainFolders @ map mainFolder es)"
proof (induction es arbitrary: fs formData mainFolders)
  case Nil
  then show ?case by simp
next
  case (Cons entry rest)
  then obtain f fs' where fs: "fs = f # fs'" and f: "entry_file entry = IsFile f"
    and rest: "map entry_file rest = map IsFile fs'"
    by (cases fs) auto
  show ?case
    using Cons.IH [OF rest] by (simp add: fs f)
qed

lemma process_try_sends:
  assumes "map entry_file (filesState p) = map IsFile fs"
  shows "sent (snd (process_try eng apiBase outcome p))
           = sent p @ [resize_request apiBase fs (map mainFolder (filesState p))]"
  using assms
  by (cases outcome)
     (simp_all add: process_try_def append_entries_files Let_def updateStatus_def
        resize_request_def createDownloadCard_def setProgress_def response_blob_def
        split: option.splits prod.splits sum.splits)

lemma process_try_sent:
  assumes "process_try eng apiBase outcome q = (thrown, q')"
    and "map entry_file (filesState q) = map IsFile fs"
  shows "sent q' = sent q @ [resize_request apiBase fs (map mainFolder (filesState q))]"
  using process_try_sends [OF assms(2), of eng apiBase outcome] assms(1) by simp

text \<open>The click handler around its \<open>try\<close> block, once the sequence is not empty.\<close>

lemma processBtn_click_run:
  assumes "filesState p \<noteq> []"
    and "process_try eng apiBase outcome
           (setProgress 0 (updateStatus ''Processing images...''
              (p\<lparr>processBtn_disabled := True\<rparr>\<lparr>downloadArea := []\<rparr>))) = (thrown, q')"
  shows "processBtn_click eng apiBase outcome p
           = (case thrown of
                None \<Rightarrow> q'
              | Some error \<Rightarrow> updateStatus (''Error: '' @ message error) q')
               \<lparr>processBtn_disabled := False\<rparr>"
  using assms by (simp add: processBtn_click_def Let_def)

lemma process_try_ok:
  assumes "map entry_file (filesState q) = map IsFile fs" and "ok r"
  shows "process_try eng apiBase (Responded r) q
           = (None,
              updateStatus ''All images processed and ready for download!''
                (setProgress 1
                  (createDownloadCard ''resized_images.zip''
                     (case body r of None \<Rightarrow> [] | Some b \<Rightarrow> body_text b)
                     ((updateStatus ''Sending to server...'' q)
                        \<lparr>sent := sent q
                           @ [resize_request apiBase fs (map mainFolder (filesState q))]\<rparr>))))"
  using assms
  by (simp add: process_try_def append_entries_files Let_def updateStatus_def
      resize_request_def response_blob_def split: option.splits)

lemma process_try_not_ok:
  assumes "map entry_file (filesState q) = map IsFile fs" and "\<not> ok r"
  shows "process_try eng apiBase (Responded r) q
           = (Some (not_ok_error eng r),
              (updateStatus ''Sending to server...'' q)
                \<lparr>sent := sent q
                   @ [resize_request apiBase fs (map mainFolder (filesState q))]\<rparr>)"
  using assms
  by (simp add: process_try_def append_entries_files Let_def updateStatus_def resize_request_def)

lemma loaded_page_files:
  "filesState loaded_page \<noteq> []"
  "map entry_file (filesState loaded_page) = map IsFile [cat_png, dot_png]"
  by (simp_all add: loaded_page_def two_entries_def)

lemma JSON_stringify_sample:
  \<open>JSON_stringify [''cat'', ''image''] = ''["cat","image"]''\<close>
  by code_simp

text \<open>
  C6. For a non-empty sequence whose entries hold the files \<open>fs\<close>, a click on the
  process button sends exactly one request, whatever the server then answers: a POST to
  \<open>{apiBase}/resize\<close> whose form holds each file under the field \<open>files\<close>, in sequence
  order, then the JSON array of the folder names, in sequence order, under \<open>base_names\<close>
  and again under \<open>main_folder\<close>.
\<close>

theorem processBatch_request:
  assumes "filesState p \<noteq> []" and "map entry_file (filesState p) = map IsFile fs"
  shows "sent (processBtn_click eng apiBase outcome p)
           = sent p
             @ [\<lparr>req_method = ''POST'', req_url = apiBase @ ''/resize'', req_credentials = None,
                 req_body = FormBody
                   (map (\<lambda>f. (''files'', FileValue f (file_name f))) fs
                    @ [(''base_names'', TextValue (JSON_stringify (map mainFolder (filesState p)))),
                       (''main_folder'', TextValue (JSON_stringify (map mainFolder (filesState p))))])\<rparr>]"
proof -
  define q where "q = setProgress 0 (updateStatus ''Processing images...''
                        (p\<lparr>processBtn_disabled := True\<rparr>\<lparr>downloadArea := []\<rparr>))"
  obtain thrown q' where run: "process_try eng apiBase outcome q = (thrown, q')"
    by (cases "process_try eng apiBase outcome q")
  have q: "filesState q = filesState p" "sent q = sent p"
    by (simp_all add: q_def setProgress_def updateStatus_def)
  have "sent q' = sent p @ [resize_request apiBase fs (map mainFolder (filesState p))]"
    using process_try_sent [OF run, of fs] assms(2) by (simp add: q)
  moreover have "processBtn_click eng apiBase outcome p
      = (case thrown of None \<Rightarrow> q' | Some error \<Rightarrow> updateStatus (''Error: '' @ message error) q')
          \<lparr>processBtn_disabled := False\<rparr>"
    using assms(1) run by (simp add: processBtn_click_def Let_def q_def)
  ultimately show ?thesis
    by (cases thrown) (simp_all add: updateStatus_def resize_request_def)
qed

theorem processBatch_request_witness:
  \<open>filesState loaded_page \<noteq> []
   \<and> map entry_file (filesState loaded_page) = map IsFile [cat_png, dot_png]
   \<and> sent (processBtn_click sample_engine ''http://127.0.0.1:8000'' (Responded zip_response)
             loaded_page)
       = [\<lparr>req_method = ''POST'', req_url = ''http://127.0.0.1:8000/resize'',
           req_credentials = None,
           req_body = FormBody
             [(''files'', FileValue cat_png ''cat.png''),
              (''files'', FileValue dot_png ''.png''),
              (''base_names'', TextValue ''["cat","image"]''),
              (''main_folder'', TextValue ''["cat","image"]'')]\<rparr>]\<close>
  using processBatch_request
    [OF loaded_page_files, of sample_engine "''http://127.0.0.1:8000''" "Responded zip_response"]
    loaded_page_files
  by (simp add: loaded_page_def two_entries_def blank_page_def cat_png_def dot_png_def
      JSON_stringify_sample)

text \<open>
  C4. For a non-empty sequence of files, when \<open>/resize\<close> answers with a status from 200
  to 299, the download area holds exactly one card, whose label and whose download name
  are \<open>resized_images.zip\<close> and whose link is the one object URL registered for the
  response body, and the width of the progress bar is \<open>100%\<close>.
\<close>

theorem successful_resize_gives_one_download:
  assumes "filesState p \<noteq> []" and "map entry_file (filesState p) = map IsFile fs" and "ok r"
  shows "downloadArea (processBtn_click eng apiBase (Responded r) p)
           = [\<lparr>label_text = ''resized_images.zip'', link_href = length (object_urls p),
               link_download = ''resized_images.zip'', link_text = ''Download zip''\<rparr>]
         \<and> object_urls (processBtn_click eng apiBase (Responded r) p)
           = object_urls p @ [case body r of None \<Rightarrow> [] | Some b \<Rightarrow> body_text b]
         \<and> progressFill_width (processBtn_click eng apiBase (Responded r) p) = ''100%''"
proof -
  define q where "q = setProgress 0 (updateStatus ''Processing images...''
                        (p\<lparr>processBtn_disabled := True\<rparr>\<lparr>downloadArea := []\<rparr>))"
  have files: "map entry_file (filesState q) = map IsFile fs"
    using assms(2) by (simp add: q_def setProgress_def updateStatus_def)
  show ?thesis
    unfolding processBtn_click_run [OF assms(1) process_try_ok [OF files assms(3), unfolded q_def]]
    by (simp add: updateStatus_def setProgress_def createDownloadCard_def
        Let_def dec_int_def dec_nat_100)
qed

lemma zip_response_ok: "ok zip_response"
  by (simp add: ok_def zip_response_def)

theorem successful_resize_gives_one_download_witness:
  "filesState loaded_page \<noteq> []
   \<and> map entry_file (filesState loaded_page) = map IsFile [cat_png, dot_png]
   \<and> ok zip_response
   \<and> downloadArea (processBtn_click sample_engine ''http://127.0.0.1:8000''
                     (Responded zip_response) loaded_page)
       = [\<lparr>label_text = ''resized_images.zip'', link_href = 0,
           link_download = ''resized_images.zip'', link_text = ''Download zip''\<rparr>]
   \<and> progressFill_width (processBtn_click sample_engine ''http://127.0.0.1:8000''
                           (Responded zip_response) loaded_page) = ''100%''"
  using successful_resize_gives_one_download
    [OF loaded_page_files zip_response_ok, of sample_engine "''http://127.0.0.1:8000''"]
    loaded_page_files zip_response_ok
  by (simp add: loaded_page_def blank_page_def)

text \<open>
  What the status shows after a response outside 200 to 299: \<open>Error:\<close> and the message
  of the exception the \<open>if (!response.ok)\<close> block ended with; no card is made.
\<close>

lemma failed_resize_status:
  assumes "filesState p \<noteq> []" and "map entry_file (filesState p) = map IsFile fs" and "\<not> ok r"
  shows "statusText (processBtn_click eng apiBase (Responded r) p)
           = ''Error: '' @ message (not_ok_error eng r)
         \<and> downloadArea (processBtn_click eng apiBase (Responded r) p) = []"
proof -
  define q where "q = setProgress 0 (updateStatus ''Processing images...''
                        (p\<lparr>processBtn_disabled := True\<rparr>\<lparr>downloadArea := []\<rparr>))"
  have files: "map entry_file (filesState q) = map IsFile fs"
    using assms(2) by (simp add: q_def setProgress_def updateStatus_def)
  show ?thesis
    unfolding processBtn_click_run [OF assms(1) process_try_not_ok [OF files assms(3), unfolded q_def]]
    by (simp add: updateStatus_def setProgress_def)
qed

text \<open>
  The first half of C3 holds: a JSON body whose \<open>detail\<close> is a non-empty string gives
  that string as the message.
\<close>

lemma not_ok_error_detail:
  assumes "body r = Some b" and "body_json b = Some (JObj kvs)"
    and "map_of kvs ''detail'' = Some (JStr d)" and "d \<noteq> []"
  shows "not_ok_error eng r = Error d"
  using assms
  by (simp add: not_ok_error_def response_json_def get_prop_def js_or_def)

lemma bad_image_status:
  "statusText (processBtn_click sample_engine ''http://127.0.0.1:8000'' (Responded bad_image)
                 loaded_page)
     = ''Error: bad image''"
proof -
  have "\<not> ok bad_image"
    by (simp add: ok_def bad_image_def)
  moreover have "not_ok_error sample_engine bad_image = Error ''bad image''"
    by (simp add: not_ok_error_def response_json_def get_prop_def js_or_def bad_image_def)
  ultimately show ?thesis
    using failed_resize_status
      [OF loaded_page_files, of bad_image sample_engine "''http://127.0.0.1:8000''"]
    by simp
qed

text \<open>
  The second half does not: a body that is not JSON was read by \<open>response.json()\<close>
  before the parse failed, so \<open>response.text()\<close> in the inner \<open>catch\<close> rejects, and
  the message is that of the rejection. Only a response without a body falls back to its
  text, which is empty.
\<close>

lemma not_ok_error_not_json:
  assumes "body r = Some b" and "body_json b = None"
  shows "not_ok_error eng r = TypeError (body_used_message eng)"
  using assms
  by (simp add: not_ok_error_def response_json_def response_text_def)

lemma not_ok_error_no_body:
  assumes "body r = None"
  shows "not_ok_error eng r = Error []"
  using assms
  by (simp add: not_ok_error_def response_json_def response_text_def)

lemma server_error_not_ok: "\<not> ok server_error"
  by (simp add: ok_def server_error_def)

text \<open>
  C3 at a failing input: the files \<open>cat.png\<close> and \<open>.png\<close> are selected and \<open>/resize\<close>
  answers 500 with the text \<open>Internal Server Error\<close>. The status does not show that
  text; it shows the message of the TypeError for a body already read.
\<close>

theorem raw_text_fallback_fails:
  "statusText (processBtn_click sample_engine ''http://127.0.0.1:8000'' (Responded server_error)
                 loaded_page)
     = ''Error: body stream already read''"
proof -
  have "not_ok_error sample_engine server_error = TypeError (body_used_message sample_engine)"
    by (rule not_ok_error_not_json
          [where b = "\<lparr>body_text = ''Internal Server Error'', body_json = None\<rparr>"])
       (simp_all add: server_error_def)
  then show ?thesis
    using failed_resize_status [OF loaded_page_files server_error_not_ok,
        of sample_engine "''http://127.0.0.1:8000''"]
    by (simp add: sample_engine_def)
qed

section \<open>Editor export\<close>

text \<open>The byte loop of \<open>dataUrlToBlob\<close> copies the decoded text, byte by byte.\<close>

lemma fill_bytes_from:
  "i \<le> length s \<Longrightarrow> length ia = length s \<Longrightarrow>
   fill_bytes i s ia = take i ia @ map of_char (drop i s)"
proof (induction i s ia rule: fill_bytes.induct)
  case (1 i byteString ia)
  show ?case
  proof (cases "i < length byteString")
    case True
    have "fill_bytes i byteString ia
            = fill_bytes (i + 1) byteString (ia[i := of_char (byteString ! i)])"
      using True by (subst fill_bytes.simps) simp
    also have "\<dots> = take (i + 1) (ia[i := of_char (byteString ! i)])
                      @ map of_char (drop (i + 1) byteString)"
      using True "1.prems" by (intro "1.IH") simp_all
    also have "\<dots> = take i ia @ map of_char (drop i byteString)"
      using True "1.prems"
      by (simp add: take_Suc_conv_app_nth Cons_nth_drop_Suc [symmetric])
    finally show ?thesis .
  next
    case False
    then show ?thesis
      using "1.prems" by (subst fill_bytes.simps) simp
  qed
qed

lemma fill_bytes_all: "fill_bytes 0 s (replicate (length s) 0) = map of_char s"
  using fill_bytes_from [of 0 s "replicate (length s) 0"] by simp

lemma setStatus_requested: "editor_requested (setStatus m v) = editor_requested v"
  by (simp add: setStatus_def split: option.splits)

lemma setStatus_text:
  "statusEl_text (setStatus m v) = (case statusEl_text v of None \<Rightarrow> None | Some old \<Rightarrow> Some m)"
  by (simp add: setStatus_def split: option.splits)

lemma blob_type_of_jpeg: "blob_type_of ''image/jpeg'' = ''image/jpeg''"
  by code_simp

lemma dataUrlToBlob_sample:
  "dataUrlToBlob atob_sample ''data:image/jpeg;base64,QUJD''
     = Inr \<lparr>blob_bytes = [65, 66, 67], blob_type = ''image/jpeg''\<rparr>"
  using fill_bytes_all [of "''ABC''"]
  by (simp add: dataUrlToBlob_def atob_sample_def Let_def blob_type_of_jpeg)

lemma dec_nat_1700: "dec_nat 1700 = ''1700''"
  by code_simp

text \<open>
  C9. When the editor widget hands out a data URL that \<open>dataUrlToBlob\<close> can decode, an
  export click sends exactly one request, whatever the server then answers: a POST to
  \<open>{apiBase}/resize\<close> whose form holds one entry, the exported JPEG file under the field
  \<open>files\<close>. When the response has a status outside 200 to 299, the status element (if
  the page has one) shows \<open>Resize failed:\<close> followed by the text of the response body.
\<close>

theorem editor_export_request_and_failure:
  assumes "toDataURL env = Inr dataUrl" and "dataUrlToBlob (atob env) dataUrl = Inr b"
  shows "editor_requested (exportBtn_click eng env outcome v)
           = editor_requested v
             @ [\<lparr>req_method = ''POST'',
                 req_url = API_BASE_editor (editor_hostname env) (editor_origin env) @ ''/resize'',
                 req_credentials = Some ''include'',
                 req_body = FormBody
                   [(''files'',
                     FileValue
                       \<lparr>file_name = ''pixelfit_edit_'' @ dec_nat (now env) @ ''.jpeg'',
                        file_type = ''image/jpeg'', file_bytes = blob_bytes b\<rparr>
                       (''pixelfit_edit_'' @ dec_nat (now env) @ ''.jpeg''))]\<rparr>]
         \<and> (\<forall>r. outcome = Responded r \<and> \<not> ok r \<longrightarrow>
               statusEl_text (exportBtn_click eng env outcome v)
                 = (case statusEl_text v of
                      None \<Rightarrow> None
                    | Some old \<Rightarrow>
                        Some (''Resize failed: ''
                              @ (case body r of None \<Rightarrow> [] | Some bd \<Rightarrow> body_text bd))))"
  using assms
  by (cases outcome)
     (auto simp: exportBtn_click_def export_try_def Let_def response_text_def response_blob_def
        setStatus_requested setStatus_text split: option.splits)

theorem editor_export_request_and_failure_witness:
  "toDataURL editor_sample = Inr ''data:image/jpeg;base64,QUJD''
   \<and> dataUrlToBlob (atob editor_sample) ''data:image/jpeg;base64,QUJD''
       = Inr \<lparr>blob_bytes = [65, 66, 67], blob_type = ''image/jpeg''\<rparr>
   \<and> editor_requested (exportBtn_click sample_engine editor_sample (Responded server_error)
                         editor_start)
       = [\<lparr>req_method = ''POST'', req_url = ''http://127.0.0.1:8000/resize'',
           req_credentials = Some ''include'',
           req_body = FormBody
             [(''files'',
               FileValue \<lparr>file_name = ''pixelfit_edit_1700.jpeg'', file_type = ''image/jpeg'',
                          file_bytes = [65, 66, 67]\<rparr>
                 ''pixelfit_edit_1700.jpeg'')]\<rparr>]
   \<and> statusEl_text (exportBtn_click sample_engine editor_sample (Responded server_error)
                      editor_start)
       = Some ''Resize failed: Internal Server Error''"
proof -
  have url: "toDataURL editor_sample = Inr ''data:image/jpeg;base64,QUJD''"
    by (simp add: editor_sample_def)
  have blob: "dataUrlToBlob (atob editor_sample) ''data:image/jpeg;base64,QUJD''
                = Inr \<lparr>blob_bytes = [65, 66, 67], blob_type = ''image/jpeg''\<rparr>"
    using dataUrlToBlob_sample by (simp add: editor_sample_def)
  show ?thesis
    using editor_export_request_and_failure
      [OF url blob, of sample_engine "Responded server_error" editor_start]
      url blob server_error_not_ok
    by (simp add: editor_sample_def editor_start_def server_error_def API_BASE_editor_def
        IS_LOCAL_def dec_nat_1700)
qed

end
